theory Spec2Isabelle
  imports Main "HOL-Library.Word" "HOL-Library.Sublist"
begin

section \<open>JavaScript values\<close>

text \<open>
  A JavaScript string is a sequence of 16-bit code units. ASCII literals of the source
  are written through \<open>ascii\<close>; the (Chinese) diagnostic labels are given by their
  code units.
\<close>

type_synonym jsstring = "16 word list"

definition ascii :: "string \<Rightarrow> jsstring" where
  "ascii s = map of_char s"

text \<open>A \<open>File\<close> object of the platform: the model keeps its name, MIME type and bytes.\<close>

record jsfile =
  file_name :: jsstring
  file_type :: jsstring
  file_bytes :: "8 word list"

text \<open>
  The values that travel through the client: arguments, request payloads, responses and
  rejection values.

  \<^item> \<open>Num neg m\<close> is the integral number of magnitude \<open>m\<close> (below \<open>2^53\<close>, so a double
    holds it exactly) with sign \<open>neg\<close>; \<open>Num True 0\<close> is \<open>-0\<close>. \<open>NaN\<close> and \<open>Infinity neg\<close>
    are the three special numbers. Other numbers (fractions, larger magnitudes) need
    floating point and are not values of this type.
  \<^item> \<open>Obj kvs\<close> is an ordinary object with prototype \<open>Object.prototype\<close> and the own data
    properties \<open>kvs\<close> (the first entry of a key counts). No value of this type is a
    function, so a property of an object is never callable.
  \<^item> \<open>Arr vs\<close> is an array, \<open>FileV f\<close> a \<open>File\<close>, \<open>FormDataV es\<close> a \<open>FormData\<close> with the
    entries \<open>es\<close>, \<open>ErrorV m\<close> the object \<open>new Error(m)\<close>.
\<close>

datatype jsval =
    Undefined
  | Null
  | Bool bool
  | Num bool "53 word"
  | NaN
  | Infinity bool
  | Str jsstring
  | Arr "jsval list"
  | Obj "(jsstring \<times> jsval) list"
  | FileV jsfile
  | FormDataV "(jsstring \<times> jsval) list"
  | ErrorV jsstring

text \<open>
  What a computation can raise or reject with: a value (of the transport, of \<open>fetch\<close>,
  or an error the code creates), or the \<open>TypeError\<close> that the runtime itself raises
  (its message is engine specific, and nothing here reads it).
\<close>

datatype thrown =
    Thrown jsval
  | RuntimeTypeError

subsection \<open>String conversion\<close>

definition digit :: "nat \<Rightarrow> 16 word" where
  "digit d = of_nat (48 + d)"

fun dec :: "nat \<Rightarrow> jsstring" where
  "dec n = (if n < 10 then [digit n] else dec (n div 10) @ [digit (n mod 10)])"

declare dec.simps [simp del]

fun join :: "jsstring \<Rightarrow> jsstring list \<Rightarrow> jsstring" where
  "join sep [] = []"
| "join sep [s] = s"
| "join sep (s # t # ts) = s @ sep @ join sep (t # ts)"

text \<open>
  \<open>ToString\<close> of the language, as a template literal \<open>`${v}`\<close> applies it.

  \<^item> An ordinary object is converted through its \<open>toString\<close>, then its \<open>valueOf\<close>. With
    no own \<open>toString\<close> it inherits the one of \<open>Object.prototype\<close> and gives
    \<open>[object Object]\<close>. An own \<open>toString\<close> is not callable and is skipped; \<open>valueOf\<close>,
    own (not callable) or inherited (it returns the object), gives no primitive: the
    conversion raises a \<open>TypeError\<close>.
  \<^item> An array joins the conversions of its elements with a comma, from left to right;
    \<open>undefined\<close> and \<open>null\<close> elements give the empty string.
\<close>

fun to_string :: "jsval \<Rightarrow> thrown + jsstring"
  and elements_to_string :: "jsval list \<Rightarrow> thrown + jsstring list" where
  "to_string Undefined = Inr (ascii ''undefined'')"
| "to_string Null = Inr (ascii ''null'')"
| "to_string (Bool b) = Inr (if b then ascii ''true'' else ascii ''false'')"
| "to_string (Num neg m) =
     Inr (if neg \<and> m \<noteq> 0 then ascii ''-'' @ dec (unat m) else dec (unat m))"
| "to_string NaN = Inr (ascii ''NaN'')"
| "to_string (Infinity neg) = Inr (if neg then ascii ''-Infinity'' else ascii ''Infinity'')"
| "to_string (Str s) = Inr s"
| "to_string (Arr vs) =
     (case elements_to_string vs of
        Inl e \<Rightarrow> Inl e
      | Inr ss \<Rightarrow> Inr (join (ascii '','') ss))"
| "to_string (Obj kvs) =
     (if ascii ''toString'' \<in> set (map fst kvs) then Inl RuntimeTypeError
      else Inr (ascii ''[object Object]''))"
| "to_string (FileV f) = Inr (ascii ''[object File]'')"
| "to_string (FormDataV es) = Inr (ascii ''[object FormData]'')"
| "to_string (ErrorV m) = Inr (if m = [] then ascii ''Error'' else ascii ''Error: '' @ m)"
| "elements_to_string [] = Inr []"
| "elements_to_string (v # vs) =
     (case (if v = Undefined \<or> v = Null then Inr [] else to_string v) of
        Inl e \<Rightarrow> Inl e
      | Inr s \<Rightarrow>
          (case elements_to_string vs of
             Inl e \<Rightarrow> Inl e
           | Inr ss \<Rightarrow> Inr (s # ss)))"

text \<open>
  Conversion to a scalar value string (\<open>USVString\<close>), which the platform applies to the
  string arguments of \<open>FormData.append\<close>: a surrogate that is not part of a pair
  becomes U+FFFD.
\<close>

definition is_lead :: "16 word \<Rightarrow> bool" where
  "is_lead c = (0xD800 \<le> c \<and> c \<le> 0xDBFF)"

definition is_trail :: "16 word \<Rightarrow> bool" where
  "is_trail c = (0xDC00 \<le> c \<and> c \<le> 0xDFFF)"

fun usv_string :: "jsstring \<Rightarrow> jsstring" where
  "usv_string [] = []"
| "usv_string [c] = (if is_lead c \<or> is_trail c then [0xFFFD] else [c])"
| "usv_string (c # d # cs) =
     (if is_lead c
      then (if is_trail d then c # d # usv_string cs else 0xFFFD # usv_string (d # cs))
      else if is_trail c then 0xFFFD # usv_string (d # cs)
      else c # usv_string (d # cs))"

text \<open>
  The property read \<open>v.type\<close>: it raises a \<open>TypeError\<close> on \<open>undefined\<close> and \<open>null\<close>, is
  the MIME type of a \<open>File\<close>, the own property \<open>type\<close> of a plain object if it has one,
  and \<open>undefined\<close> otherwise (no prototype of the other values has a \<open>type\<close>).
\<close>

fun read_type :: "jsval \<Rightarrow> thrown + jsval" where
  "read_type Undefined = Inl RuntimeTypeError"
| "read_type Null = Inl RuntimeTypeError"
| "read_type (FileV f) = Inr (Str (file_type f))"
| "read_type (Obj kvs) =
     Inr (case map_of kvs (ascii ''type'') of Some v \<Rightarrow> v | None \<Rightarrow> Undefined)"
| "read_type v = Inr Undefined"

text \<open>
  What \<open>FormData.append(name, value)\<close> stores for \<open>value\<close>: a \<open>File\<close> as it is; any other
  value as the scalar value string of its string conversion, which may raise.
\<close>

definition form_value :: "jsval \<Rightarrow> thrown + jsval" where
  "form_value v =
     (case v of
        FileV f \<Rightarrow> Inr (FileV f)
      | _ \<Rightarrow> (case to_string v of Inl e \<Rightarrow> Inl e | Inr s \<Rightarrow> Inr (Str (usv_string s))))"

text \<open>\<open>formData.append(name, value)\<close>: the new entry goes to the end of the list.\<close>

definition formdata_append ::
  "(jsstring \<times> jsval) list \<Rightarrow> jsstring \<Rightarrow> jsval \<Rightarrow> thrown + (jsstring \<times> jsval) list" where
  "formdata_append es name v =
     (case form_value v of
        Inl e \<Rightarrow> Inl e
      | Inr stored \<Rightarrow> Inr (es @ [(usv_string name, stored)]))"

text \<open>
  \<open>s.split(c)\<close> for a separator of one code unit: the pieces between the occurrences
  of \<open>c\<close>; the result is never empty.
\<close>

fun split :: "jsstring \<Rightarrow> 16 word \<Rightarrow> jsstring list" where
  "split [] c = [[]]"
| "split (x # xs) c =
     (if x = c then [] # split xs c
      else (case split xs c of p # ps \<Rightarrow> (x # p) # ps | [] \<Rightarrow> [[x]]))"

text \<open>Indexing an array: out of range it is \<open>undefined\<close>.\<close>

definition index_js :: "jsstring list \<Rightarrow> nat \<Rightarrow> jsval" where
  "index_js xs i = (if i < length xs then Str (xs ! i) else Undefined)"

section \<open>The transport, the fetch primitive and the operator log\<close>

datatype http_verb = GET | POST | PUT | DELETE

text \<open>
  One call of the shared transport \<open>httpClient\<close>: \<open>get(path)\<close> and \<open>delete(path)\<close>
  pass no second argument (\<open>payload = None\<close>); \<open>get(path, query)\<close>, \<open>post(path, body)\<close>
  and \<open>put(path, body)\<close> pass one.
\<close>

record http_request =
  verb :: http_verb
  path :: jsstring
  payload :: "jsval option"

text \<open>
  One call \<open>fetch(url, {method, body, headers})\<close>, with the arguments as the source passes
  them (the field \<open>method\<close> is \<open>req_method\<close> here).
\<close>

record fetch_request =
  url :: jsval
  req_method :: jsstring
  body :: jsval
  headers :: "(jsstring \<times> jsval) list"

text \<open>
  The \<open>Response\<close> of the platform. Its \<open>ok\<close> getter is defined by the Fetch standard:
  the status is in the range 200 to 299.
\<close>

record fetch_response =
  status :: nat
  statusText :: jsstring

definition ok :: "fetch_response \<Rightarrow> bool" where
  "ok r = (200 \<le> status r \<and> status r \<le> 299)"

text \<open>
  The state that all calls share: the binding \<open>httpClient\<close> that the module imports from
  \<open>./config.js\<close>, the global \<open>fetch\<close>, and the exported instance \<open>knowledgeAPI\<close> (the value
  of \<open>this\<close> in every method), given by its own properties. A call of the transport or
  of \<open>fetch\<close> resolves (\<open>Inr\<close>) or rejects (\<open>Inl\<close>) with a value.
\<close>

record js_env =
  httpClient :: "http_request \<Rightarrow> jsval + jsval"
  fetch :: "fetch_request \<Rightarrow> jsval + fetch_response"
  knowledgeAPI :: "(jsstring \<times> jsval) list"

text \<open>
  The module once loaded: \<open>export const knowledgeAPI = new KnowledgeLibraryAPI()\<close>, and
  the class declares neither a constructor nor a field.
\<close>

definition module_loaded ::
  "(http_request \<Rightarrow> jsval + jsval) \<Rightarrow> (fetch_request \<Rightarrow> jsval + fetch_response) \<Rightarrow> js_env" where
  "module_loaded transport platform_fetch =
     \<lparr>httpClient = transport, fetch = platform_fetch, knowledgeAPI = []\<rparr>"

text \<open>What an operation does to the outside, in order.\<close>

datatype event =
    HttpCall http_request
  | FetchCall fetch_request
  | ConsoleError jsstring thrown

text \<open>
  An asynchronous computation run to its end from a shared state: the events it
  caused, the value it resolved with (\<open>Inr\<close>) or what it rejected with (\<open>Inl\<close>), and the
  shared state it leaves.
\<close>

type_synonym 'a outcome = "event list \<times> (thrown + 'a)"

type_synonym 'a prog = "js_env \<Rightarrow> 'a outcome \<times> js_env"

definition run :: "'a prog \<Rightarrow> js_env \<Rightarrow> 'a outcome" where
  "run p env = fst (p env)"

definition after :: "'a prog \<Rightarrow> js_env \<Rightarrow> js_env" where
  "after p env = snd (p env)"

definition return :: "'a \<Rightarrow> 'a prog" where
  "return v = (\<lambda>env. (([], Inr v), env))"

definition throw :: "thrown \<Rightarrow> 'a prog" where
  "throw e = (\<lambda>env. (([], Inl e), env))"

text \<open>A step of the language itself (a conversion, a property read): no event.\<close>

definition lift :: "thrown + 'a \<Rightarrow> 'a prog" where
  "lift r = (\<lambda>env. (([], r), env))"

definition bind :: "'a prog \<Rightarrow> ('a \<Rightarrow> 'b prog) \<Rightarrow> 'b prog" where
  "bind p f =
     (\<lambda>env. case p env of
        ((t, Inl e), env') \<Rightarrow> ((t, Inl e), env')
      | ((t, Inr v), env') \<Rightarrow>
          (case f v env' of ((t', r), env'') \<Rightarrow> ((t @ t', r), env'')))"

definition try_catch :: "'a prog \<Rightarrow> (thrown \<Rightarrow> 'a prog) \<Rightarrow> 'a prog" where
  "try_catch p h =
     (\<lambda>env. case p env of
        ((t, Inl e), env') \<Rightarrow>
          (case h e env' of ((t', r), env'') \<Rightarrow> ((t @ t', r), env''))
      | ((t, Inr v), env') \<Rightarrow> ((t, Inr v), env'))"

text \<open>A rejection of the transport or of \<open>fetch\<close> is raised by \<open>await\<close> as it is.\<close>

definition settle :: "jsval + 'a \<Rightarrow> thrown + 'a" where
  "settle r = (case r of Inl e \<Rightarrow> Inl (Thrown e) | Inr v \<Rightarrow> Inr v)"

definition await_http :: "http_request \<Rightarrow> jsval prog" where
  "await_http q = (\<lambda>env. (([HttpCall q], settle (httpClient env q)), env))"

definition await_fetch :: "fetch_request \<Rightarrow> fetch_response prog" where
  "await_fetch q = (\<lambda>env. (([FetchCall q], settle (fetch env q)), env))"

definition console_error :: "jsstring \<Rightarrow> thrown \<Rightarrow> unit prog" where
  "console_error l e = (\<lambda>env. (([ConsoleError l e], Inr ()), env))"

text \<open>The \<open>catch\<close> block every method has: log under the method's label, raise again.\<close>

definition log_and_rethrow :: "jsstring \<Rightarrow> thrown \<Rightarrow> 'a prog" where
  "log_and_rethrow l error = bind (console_error l error) (\<lambda>_. throw error)"

text \<open>A parameter with a default value: the default is taken when the argument is \<open>undefined\<close>.\<close>

definition default_param :: "jsval \<Rightarrow> jsval \<Rightarrow> jsval" where
  "default_param v d = (if v = Undefined then d else v)"

text \<open>The template literal \<open>`lit${v}`\<close>: it converts \<open>v\<close> to a string, which may raise.\<close>

definition template :: "jsstring \<Rightarrow> jsval \<Rightarrow> jsstring prog" where
  "template lit v = bind (lift (to_string v)) (\<lambda>s. return (lit @ s))"

text \<open>
  An assignment \<open>this.k = v\<close>. No method of the source makes one; it is the write
  that a computation preserving the shared state must not make.
\<close>

definition assign_this :: "jsstring \<Rightarrow> jsval \<Rightarrow> unit prog" where
  "assign_this k v =
     (\<lambda>env. (([], Inr ()), env\<lparr>knowledgeAPI := (k, v) # knowledgeAPI env\<rparr>))"

text \<open>A computation that leaves the shared state as it found it.\<close>

definition preserves :: "'a prog \<Rightarrow> bool" where
  "preserves p = (\<forall>env. snd (p env) = env)"

section \<open>KnowledgeLibraryAPI\<close>

subsection \<open>Diagnostic labels\<close>

text \<open>The first argument of each \<open>console.error\<close> call, as UTF-16 code units.\<close>

definition label_getLibraries :: jsstring where
  "label_getLibraries = [0x83B7, 0x53D6, 0x77E5, 0x8BC6, 0x5E93, 0x5217, 0x8868, 0x5931, 0x8D25, 0x003A]"

definition label_getLibraryDetail :: jsstring where
  "label_getLibraryDetail = [0x83B7, 0x53D6, 0x77E5, 0x8BC6, 0x5E93, 0x8BE6, 0x60C5, 0x5931, 0x8D25, 0x003A]"

definition label_createLibrary :: jsstring where
  "label_createLibrary = [0x521B, 0x5EFA, 0x77E5, 0x8BC6, 0x5E93, 0x5931, 0x8D25, 0x003A]"

definition label_updateLibrary :: jsstring where
  "label_updateLibrary = [0x66F4, 0x65B0, 0x77E5, 0x8BC6, 0x5E93, 0x5931, 0x8D25, 0x003A]"

definition label_deleteLibrary :: jsstring where
  "label_deleteLibrary = [0x5220, 0x9664, 0x77E5, 0x8BC6, 0x5E93, 0x5931, 0x8D25, 0x003A]"

definition label_addDocument :: jsstring where
  "label_addDocument = [0x6DFB, 0x52A0, 0x6587, 0x6863, 0x5931, 0x8D25, 0x003A]"

definition label_updateDocument :: jsstring where
  "label_updateDocument = [0x66F4, 0x65B0, 0x6587, 0x6863, 0x5931, 0x8D25, 0x003A]"

definition label_deleteDocument :: jsstring where
  "label_deleteDocument = [0x5220, 0x9664, 0x6587, 0x6863, 0x5931, 0x8D25, 0x003A]"

definition label_getUploadUrl :: jsstring where
  "label_getUploadUrl = [0x83B7, 0x53D6, 0x4E0A, 0x4F20, 0x0055, 0x0052, 0x004C, 0x5931, 0x8D25, 0x003A]"

definition label_uploadFileToOSS :: jsstring where
  "label_uploadFileToOSS = [0x4E0A, 0x4F20, 0x6587, 0x4EF6, 0x5230, 0x004F, 0x0053, 0x0053, 0x5931, 0x8D25, 0x003A]"

definition label_crawlSite :: jsstring where
  "label_crawlSite = [0x722C, 0x53D6, 0x7F51, 0x7AD9, 0x5931, 0x8D25, 0x003A]"

definition label_uploadLocalFile :: jsstring where
  "label_uploadLocalFile = [0x672C, 0x5730, 0x4E0A, 0x4F20, 0x5931, 0x8D25, 0x003A]"

definition label_getKnowledgeGraph :: jsstring where
  "label_getKnowledgeGraph = [0x83B7, 0x53D6, 0x77E5, 0x8BC6, 0x56FE, 0x8C31, 0x5931, 0x8D25, 0x003A]"

definition label_processOSSDocument :: jsstring where
  "label_processOSSDocument = [0x5904, 0x7406, 0x0020, 0x004F, 0x0053, 0x0053, 0x0020, 0x6587, 0x6863, 0x5931, 0x8D25, 0x003A]"

text \<open>The prefix of the message of the error that \<open>uploadFileToOSS\<close> creates.\<close>

definition upload_failed :: jsstring where
  "upload_failed = [0x4E0A, 0x4F20, 0x5931, 0x8D25, 0x003A, 0x0020]"

subsection \<open>The methods\<close>

text \<open>
  Each method is the source's \<open>try { ... } catch (error) { console.error(label, error);
  throw error }\<close>. An argument that the caller leaves out is \<open>undefined\<close>. A path with
  an identifier is a template literal, evaluated inside the \<open>try\<close> before the transport
  is called. No method reads or assigns \<open>this\<close>.
\<close>

definition getLibraries :: "jsval prog" where
  "getLibraries =
     try_catch
       (bind (await_http
                \<lparr>verb = GET, path = ascii ''/api/knowledge/libraries'',
                 payload = None\<rparr>)
          (\<lambda>response. return response))
       (log_and_rethrow label_getLibraries)"

definition getLibraryDetail :: "jsval \<Rightarrow> jsval prog" where
  "getLibraryDetail libraryId =
     try_catch
       (bind (template (ascii ''/api/knowledge/libraries/'') libraryId) (\<lambda>p.
        bind (await_http \<lparr>verb = GET, path = p, payload = None\<rparr>)
          (\<lambda>response. return response)))
       (log_and_rethrow label_getLibraryDetail)"

definition createLibrary :: "jsval \<Rightarrow> jsval prog" where
  "createLibrary libraryData =
     try_catch
       (bind (await_http
                \<lparr>verb = POST, path = ascii ''/api/knowledge/libraries'',
                 payload = Some libraryData\<rparr>)
          (\<lambda>response. return response))
       (log_and_rethrow label_createLibrary)"

definition updateLibrary :: "jsval \<Rightarrow> jsval \<Rightarrow> jsval prog" where
  "updateLibrary libraryId libraryData =
     try_catch
       (bind (template (ascii ''/api/knowledge/libraries/'') libraryId) (\<lambda>p.
        bind (await_http \<lparr>verb = PUT, path = p, payload = Some libraryData\<rparr>)
          (\<lambda>response. return response)))
       (log_and_rethrow label_updateLibrary)"

definition deleteLibrary :: "jsval \<Rightarrow> jsval prog" where
  "deleteLibrary libraryId =
     try_catch
       (bind (template (ascii ''/api/knowledge/libraries/'') libraryId) (\<lambda>p.
        bind (await_http \<lparr>verb = DELETE, path = p, payload = None\<rparr>)
          (\<lambda>response. return response)))
       (log_and_rethrow label_deleteLibrary)"

definition addDocument :: "jsval \<Rightarrow> jsval prog" where
  "addDocument documentData =
     try_catch
       (bind (await_http
                \<lparr>verb = POST, path = ascii ''/api/knowledge/documents'',
                 payload = Some documentData\<rparr>)
          (\<lambda>response. return response))
       (log_and_rethrow label_addDocument)"

definition updateDocument :: "jsval \<Rightarrow> jsval \<Rightarrow> jsval prog" where
  "updateDocument documentId documentData =
     try_catch
       (bind (template (ascii ''/api/knowledge/documents/'') documentId) (\<lambda>p.
        bind (await_http \<lparr>verb = PUT, path = p, payload = Some documentData\<rparr>)
          (\<lambda>response. return response)))
       (log_and_rethrow label_updateDocument)"

definition deleteDocument :: "jsval \<Rightarrow> jsval prog" where
  "deleteDocument documentId =
     try_catch
       (bind (template (ascii ''/api/knowledge/documents/'') documentId) (\<lambda>p.
        bind (await_http \<lparr>verb = DELETE, path = p, payload = None\<rparr>)
          (\<lambda>response. return response)))
       (log_and_rethrow label_deleteDocument)"

definition getUploadUrl :: "jsval \<Rightarrow> jsval prog" where
  "getUploadUrl documentName =
     try_catch
       (bind (await_http
                \<lparr>verb = POST, path = ascii ''/api/knowledge/upload-url'',
                 payload = Some (Obj [(ascii ''document_name'', documentName)])\<rparr>)
          (\<lambda>response. return response))
       (log_and_rethrow label_getUploadUrl)"

text \<open>
  \<open>uploadUrl.split('?')\<close>: only a string has the method; on any other value of the
  model the call raises a \<open>TypeError\<close>.
\<close>

definition call_split :: "jsval \<Rightarrow> 16 word \<Rightarrow> thrown + jsstring list" where
  "call_split v c = (case v of Str s \<Rightarrow> Inr (split s c) | _ \<Rightarrow> Inl RuntimeTypeError)"

definition qmark :: "16 word" where
  "qmark = of_char CHR ''?''"

text \<open>
  The direct upload. The form is built first (for a value that is no \<open>File\<close> the append
  converts it to a string, which may raise) and never used. The arguments of \<open>fetch\<close>
  are evaluated before the call, so \<open>file.type\<close> is read first (and raises when \<open>file\<close>
  is \<open>undefined\<close> or \<open>null\<close>). The \<open>Error\<close> for a response that is not \<open>ok\<close> is thrown
  inside the \<open>try\<close>, so the \<open>catch\<close> logs it and raises it again.
\<close>

definition uploadFileToOSS :: "jsval \<Rightarrow> jsval \<Rightarrow> jsval prog" where
  "uploadFileToOSS uploadUrl file =
     try_catch
       (let formData = [] in
        bind (lift (formdata_append formData (ascii ''file'') file)) (\<lambda>formData.
        bind (lift (read_type file)) (\<lambda>contentType.
        bind (await_fetch
                \<lparr>url = uploadUrl, req_method = ascii ''PUT'', body = file,
                 headers = [(ascii ''Content-Type'', contentType)]\<rparr>)
          (\<lambda>response.
             if \<not> ok response
             then throw (Thrown (ErrorV (upload_failed @ dec (status response) @ ascii '' ''
                                          @ statusText response)))
             else bind (lift (call_split uploadUrl qmark)) (\<lambda>parts.
                  return (Obj [(ascii ''success'', Bool True),
                               (ascii ''url'', index_js parts 0)]))))))
       (log_and_rethrow label_uploadFileToOSS)"

definition crawlSite :: "jsval \<Rightarrow> jsval prog" where
  "crawlSite crawlData =
     try_catch
       (bind (await_http
                \<lparr>verb = POST, path = ascii ''/api/crawl/site'',
                 payload = Some crawlData\<rparr>)
          (\<lambda>response. return response))
       (log_and_rethrow label_crawlSite)"

definition uploadLocalFile :: "jsval \<Rightarrow> jsval \<Rightarrow> jsval \<Rightarrow> jsval \<Rightarrow> jsval prog" where
  "uploadLocalFile file collectionId libraryId chunkStrategy0 =
     (let chunkStrategy = default_param chunkStrategy0 (Str (ascii ''markdown'')) in
      try_catch
        (let formData = [] in
         bind (lift (formdata_append formData (ascii ''file'') file)) (\<lambda>formData.
         bind (lift (formdata_append formData (ascii ''collection_id'') collectionId)) (\<lambda>formData.
         bind (lift (formdata_append formData (ascii ''library_id'') libraryId)) (\<lambda>formData.
         bind (lift (formdata_append formData (ascii ''chunk_strategy'') chunkStrategy)) (\<lambda>formData.
         bind (await_http
                 \<lparr>verb = POST, path = ascii ''/api/upload/process'',
                  payload = Some (FormDataV formData)\<rparr>)
           (\<lambda>response. return response))))))
        (log_and_rethrow label_uploadLocalFile))"

definition getKnowledgeGraph :: "jsval \<Rightarrow> jsval \<Rightarrow> jsval prog" where
  "getKnowledgeGraph collectionId label0 =
     (let label = default_param label0 (Str (ascii ''*'')) in
      try_catch
        (bind (template (ascii ''/api/visual/graph/'') collectionId) (\<lambda>p.
         bind (await_http
                 \<lparr>verb = GET, path = p, payload = Some (Obj [(ascii ''label'', label)])\<rparr>)
           (\<lambda>response. return response)))
        (log_and_rethrow label_getKnowledgeGraph))"

definition processOSSDocument :: "jsval \<Rightarrow> jsval \<Rightarrow> jsval \<Rightarrow> jsval \<Rightarrow> jsval prog" where
  "processOSSDocument ossUrl collectionId documentName libraryId =
     try_catch
       (bind (await_http
                \<lparr>verb = POST, path = ascii ''/api/crawl/process-oss-document'',
                 payload = Some (Obj [(ascii ''oss_url'', ossUrl),
                                      (ascii ''collection_id'', collectionId),
                                      (ascii ''document_name'', documentName),
                                      (ascii ''library_id'', libraryId)])\<rparr>)
          (\<lambda>response. return response))
       (log_and_rethrow label_processOSSDocument)"

subsection \<open>Calling a method of the exported instance\<close>

datatype operation =
    OpGetLibraries
  | OpGetLibraryDetail
  | OpCreateLibrary
  | OpUpdateLibrary
  | OpDeleteLibrary
  | OpAddDocument
  | OpUpdateDocument
  | OpDeleteDocument
  | OpGetUploadUrl
  | OpUploadFileToOSS
  | OpCrawlSite
  | OpUploadLocalFile
  | OpGetKnowledgeGraph
  | OpProcessOSSDocument

text \<open>The \<open>i\<close>-th argument of a call; a parameter with no argument is \<open>undefined\<close>.\<close>

definition arg :: "jsval list \<Rightarrow> nat \<Rightarrow> jsval" where
  "arg args i = (if i < length args then args ! i else Undefined)"

text \<open>\<open>knowledgeAPI.op(...args)\<close>: the parameters are bound by position.\<close>

fun invoke :: "operation \<Rightarrow> jsval list \<Rightarrow> jsval prog" where
  "invoke OpGetLibraries args = getLibraries"
| "invoke OpGetLibraryDetail args = getLibraryDetail (arg args 0)"
| "invoke OpCreateLibrary args = createLibrary (arg args 0)"
| "invoke OpUpdateLibrary args = updateLibrary (arg args 0) (arg args 1)"
| "invoke OpDeleteLibrary args = deleteLibrary (arg args 0)"
| "invoke OpAddDocument args = addDocument (arg args 0)"
| "invoke OpUpdateDocument args = updateDocument (arg args 0) (arg args 1)"
| "invoke OpDeleteDocument args = deleteDocument (arg args 0)"
| "invoke OpGetUploadUrl args = getUploadUrl (arg args 0)"
| "invoke OpUploadFileToOSS args = uploadFileToOSS (arg args 0) (arg args 1)"
| "invoke OpCrawlSite args = crawlSite (arg args 0)"
| "invoke OpUploadLocalFile args =
     uploadLocalFile (arg args 0) (arg args 1) (arg args 2) (arg args 3)"
| "invoke OpGetKnowledgeGraph args = getKnowledgeGraph (arg args 0) (arg args 1)"
| "invoke OpProcessOSSDocument args =
     processOSSDocument (arg args 0) (arg args 1) (arg args 2) (arg args 3)"

text \<open>
  A sequence of calls, one after the other, each starting from the shared state that
  the one before left: the outcome and the shared state after each.
\<close>

fun run_calls :: "js_env \<Rightarrow> (operation \<times> jsval list) list \<Rightarrow> (jsval outcome \<times> js_env) list" where
  "run_calls env [] = []"
| "run_calls env ((op, args) # cs) =
     (case invoke op args env of
        (out, env') \<Rightarrow> (out, env') # run_calls env' cs)"

text \<open>The label under which each method logs.\<close>

fun diagnostic_label :: "operation \<Rightarrow> jsstring" where
  "diagnostic_label OpGetLibraries = label_getLibraries"
| "diagnostic_label OpGetLibraryDetail = label_getLibraryDetail"
| "diagnostic_label OpCreateLibrary = label_createLibrary"
| "diagnostic_label OpUpdateLibrary = label_updateLibrary"
| "diagnostic_label OpDeleteLibrary = label_deleteLibrary"
| "diagnostic_label OpAddDocument = label_addDocument"
| "diagnostic_label OpUpdateDocument = label_updateDocument"
| "diagnostic_label OpDeleteDocument = label_deleteDocument"
| "diagnostic_label OpGetUploadUrl = label_getUploadUrl"
| "diagnostic_label OpUploadFileToOSS = label_uploadFileToOSS"
| "diagnostic_label OpCrawlSite = label_crawlSite"
| "diagnostic_label OpUploadLocalFile = label_uploadLocalFile"
| "diagnostic_label OpGetKnowledgeGraph = label_getKnowledgeGraph"
| "diagnostic_label OpProcessOSSDocument = label_processOSSDocument"

text \<open>The requests among the events of an outcome.\<close>

fun http_calls :: "event list \<Rightarrow> http_request list" where
  "http_calls [] = []"
| "http_calls (HttpCall q # t) = q # http_calls t"
| "http_calls (_ # t) = http_calls t"

fun fetch_calls :: "event list \<Rightarrow> fetch_request list" where
  "fetch_calls [] = []"
| "fetch_calls (FetchCall q # t) = q # fetch_calls t"
| "fetch_calls (_ # t) = fetch_calls t"

section \<open>The documented request of each catalogue operation\<close>

text \<open>
  The operation catalogue of the specification, row by row: verb, path pattern with
  \<open>{id}\<close> filled by the string form of the identifier, and the body or query. A
  payload object of the caller is the body as it is given (no local validation); the
  multipart body lists its fields in the documented order, each as a form stores it.
  Where an identifier or a form field has no string form there is no request to
  document. The direct upload to object storage does not go through the transport; its
  row is \<open>spec_upload_request\<close>.
\<close>

definition spec_path :: "jsstring \<Rightarrow> jsval \<Rightarrow> jsstring option" where
  "spec_path lit ident =
     (case to_string ident of Inl _ \<Rightarrow> None | Inr s \<Rightarrow> Some (lit @ s))"

fun spec_fields :: "(jsstring \<times> jsval) list \<Rightarrow> (jsstring \<times> jsval) list option" where
  "spec_fields [] = Some []"
| "spec_fields ((name, v) # fs) =
     (case form_value v of
        Inl _ \<Rightarrow> None
      | Inr stored \<Rightarrow>
          (case spec_fields fs of
             None \<Rightarrow> None
           | Some rest \<Rightarrow> Some ((name, stored) # rest)))"

fun spec_request :: "operation \<Rightarrow> jsval list \<Rightarrow> http_request option" where
  "spec_request OpGetLibraries args =
     Some \<lparr>verb = GET, path = ascii ''/api/knowledge/libraries'', payload = None\<rparr>"
| "spec_request OpGetLibraryDetail args =
     map_option (\<lambda>p. \<lparr>verb = GET, path = p, payload = None\<rparr>)
       (spec_path (ascii ''/api/knowledge/libraries/'') (arg args 0))"
| "spec_request OpCreateLibrary args =
     Some \<lparr>verb = POST, path = ascii ''/api/knowledge/libraries'',
           payload = Some (arg args 0)\<rparr>"
| "spec_request OpUpdateLibrary args =
     map_option (\<lambda>p. \<lparr>verb = PUT, path = p, payload = Some (arg args 1)\<rparr>)
       (spec_path (ascii ''/api/knowledge/libraries/'') (arg args 0))"
| "spec_request OpDeleteLibrary args =
     map_option (\<lambda>p. \<lparr>verb = DELETE, path = p, payload = None\<rparr>)
       (spec_path (ascii ''/api/knowledge/libraries/'') (arg args 0))"
| "spec_request OpAddDocument args =
     Some \<lparr>verb = POST, path = ascii ''/api/knowledge/documents'',
           payload = Some (arg args 0)\<rparr>"
| "spec_request OpUpdateDocument args =
     map_option (\<lambda>p. \<lparr>verb = PUT, path = p, payload = Some (arg args 1)\<rparr>)
       (spec_path (ascii ''/api/knowledge/documents/'') (arg args 0))"
| "spec_request OpDeleteDocument args =
     map_option (\<lambda>p. \<lparr>verb = DELETE, path = p, payload = None\<rparr>)
       (spec_path (ascii ''/api/knowledge/documents/'') (arg args 0))"
| "spec_request OpGetUploadUrl args =
     Some \<lparr>verb = POST, path = ascii ''/api/knowledge/upload-url'',
           payload = Some (Obj [(ascii ''document_name'', arg args 0)])\<rparr>"
| "spec_request OpUploadFileToOSS args = None"
| "spec_request OpCrawlSite args =
     Some \<lparr>verb = POST, path = ascii ''/api/crawl/site'', payload = Some (arg args 0)\<rparr>"
| "spec_request OpUploadLocalFile args =
     map_option
       (\<lambda>fields. \<lparr>verb = POST, path = ascii ''/api/upload/process'',
                   payload = Some (FormDataV fields)\<rparr>)
       (spec_fields
          [(ascii ''file'', arg args 0),
           (ascii ''collection_id'', arg args 1),
           (ascii ''library_id'', arg args 2),
           (ascii ''chunk_strategy'',
              if arg args 3 = Undefined then Str (ascii ''markdown'') else arg args 3)])"
| "spec_request OpGetKnowledgeGraph args =
     map_option
       (\<lambda>p. \<lparr>verb = GET, path = p,
              payload = Some (Obj [(ascii ''label'',
                if arg args 1 = Undefined then Str (ascii ''*'') else arg args 1)])\<rparr>)
       (spec_path (ascii ''/api/visual/graph/'') (arg args 0))"
| "spec_request OpProcessOSSDocument args =
     Some \<lparr>verb = POST, path = ascii ''/api/crawl/process-oss-document'',
           payload = Some (Obj [(ascii ''oss_url'', arg args 0),
                                (ascii ''collection_id'', arg args 1),
                                (ascii ''document_name'', arg args 2),
                                (ascii ''library_id'', arg args 3)])\<rparr>"

text \<open>
  The row of the direct upload: \<open>PUT\<close> on the caller's pre-signed URL through \<open>fetch\<close>,
  the raw file as the body, \<open>Content-Type\<close> taken from the file.
\<close>

definition spec_upload_request :: "jsval \<Rightarrow> jsfile \<Rightarrow> fetch_request" where
  "spec_upload_request uploadUrl f =
     \<lparr>url = uploadUrl, req_method = ascii ''PUT'', body = FileV f,
      headers = [(ascii ''Content-Type'', Str (file_type f))]\<rparr>"

section \<open>Sample inputs\<close>

text \<open>A file, an object whose string conversion raises, and three shared states.\<close>

definition sample_file :: jsfile where
  "sample_file = \<lparr>file_name = ascii ''a.pdf'', file_type = ascii ''application/pdf'',
                   file_bytes = [0x25, 0x50, 0x44, 0x46]\<rparr>"

definition no_string_form :: jsval where
  "no_string_form = Obj [(ascii ''toString'', Num False 1)]"

definition echo_env :: js_env where
  "echo_env =
     module_loaded (\<lambda>q. Inr (Obj [(ascii ''path'', Str (path q))]))
       (\<lambda>q. Inr \<lparr>status = 200, statusText = ascii ''OK''\<rparr>)"

definition failing_env :: js_env where
  "failing_env =
     module_loaded (\<lambda>q. Inl (ErrorV (ascii ''Network Error'')))
       (\<lambda>q. Inr \<lparr>status = 403, statusText = ascii ''Forbidden''\<rparr>)"

definition get_only_env :: js_env where
  "get_only_env =
     module_loaded
       (\<lambda>q. if verb q = GET then Inr (Obj [(ascii ''path'', Str (path q))]) else Inl Null)
       (\<lambda>q. Inl Null)"

section \<open>Properties\<close>

subsection \<open>The conversions on examples\<close>

lemma unat_of_char: "unat (of_char c :: 16 word) = of_char c"
proof -
  have "(of_char c :: 16 word) = of_nat (of_char c)"
    by (simp add: of_nat_of_char)
  moreover have "(of_char c :: nat) < 2 ^ 16"
    by (rule less_trans [OF nat_of_char_less_256]) simp
  ultimately show ?thesis
    by (simp add: unsigned_of_nat take_bit_nat_eq_self)
qed

lemma of_char_not_surrogate: "\<not> is_lead (of_char c) \<and> \<not> is_trail (of_char c)"
proof -
  have "unat (of_char c :: 16 word) < 256"
    using nat_of_char_less_256 [of c] by (simp add: unat_of_char)
  then show ?thesis
    by (auto simp: is_lead_def is_trail_def word_le_nat_alt)
qed

text \<open>The field names of the source are ASCII literals: a form stores them unchanged.\<close>

lemma usv_string_ascii: "usv_string (ascii s) = ascii s"
  unfolding ascii_def
  by (induction s rule: induct_list012) (simp_all add: of_char_not_surrogate)

lemma to_string_primitives:
  "to_string Undefined = Inr (ascii ''undefined'')"
  "to_string Null = Inr (ascii ''null'')"
  "to_string (Bool True) = Inr (ascii ''true'')"
  "to_string (Bool False) = Inr (ascii ''false'')"
  "to_string NaN = Inr (ascii ''NaN'')"
  "to_string (Infinity True) = Inr (ascii ''-Infinity'')"
  "to_string (Str s) = Inr s"
  by simp_all

lemma to_string_numbers:
  "to_string (Num False 0) = Inr (ascii ''0'')"
  "to_string (Num True 0) = Inr (ascii ''0'')"
  "to_string (Num False 42) = Inr (ascii ''42'')"
  "to_string (Num True 1300) = Inr (ascii ''-1300'')"
  "to_string (Num False 9007199254740991) = Inr (ascii ''9007199254740991'')"
  by (simp_all add: dec.simps digit_def ascii_def)

lemma to_string_objects:
  "to_string (Obj [(ascii ''title'', Str (ascii ''t''))]) = Inr (ascii ''[object Object]'')"
  "to_string (Obj [(ascii ''toString'', Num False 1)]) = Inl RuntimeTypeError"
  "to_string (Obj [(ascii ''a'', Null), (ascii ''toString'', Str (ascii ''x''))])
     = Inl RuntimeTypeError"
  "to_string (FileV f) = Inr (ascii ''[object File]'')"
  "to_string (FormDataV es) = Inr (ascii ''[object FormData]'')"
  "to_string (ErrorV []) = Inr (ascii ''Error'')"
  "to_string (ErrorV (ascii ''boom'')) = Inr (ascii ''Error: boom'')"
  by (simp_all add: ascii_def)

lemma to_string_arrays:
  "to_string (Arr []) = Inr []"
  "to_string (Arr [Num False 7]) = Inr (ascii ''7'')"
  "to_string (Arr [Num False 1, Null, Str (ascii ''a'')]) = Inr (ascii ''1,,a'')"
  "to_string (Arr [Undefined, Arr [Bool True, Num False 2]]) = Inr (ascii '',true,2'')"
  "to_string (Arr [Num False 1, Obj [(ascii ''toString'', Null)]]) = Inl RuntimeTypeError"
  by (simp_all add: dec.simps digit_def ascii_def)

lemma usv_string_examples:
  "usv_string [0x61, 0xD800] = [0x61, 0xFFFD]"
  "usv_string [0xDC00, 0x61] = [0xFFFD, 0x61]"
  "usv_string [0xD83D, 0xDE00] = [0xD83D, 0xDE00]"
  "usv_string [0xD800, 0xD83D, 0xDE00, 0xDFFF] = [0xFFFD, 0xD83D, 0xDE00, 0xFFFD]"
  by (simp_all add: is_lead_def is_trail_def)

lemma form_value_examples:
  "form_value (FileV f) = Inr (FileV f)"
  "form_value (Str (ascii ''col-1'')) = Inr (Str (ascii ''col-1''))"
  "form_value (Str [0x61, 0xD800]) = Inr (Str [0x61, 0xFFFD])"
  "form_value Undefined = Inr (Str (ascii ''undefined''))"
  "form_value (Obj [(ascii ''toString'', Num False 1)]) = Inl RuntimeTypeError"
  by (simp_all add: form_value_def usv_string_ascii is_lead_def is_trail_def)

lemma form_value_ascii: "form_value (Str (ascii s)) = Inr (Str (ascii s))"
  by (simp add: form_value_def usv_string_ascii)

lemma form_value_number: "form_value (Num False 42) = Inr (Str (ascii ''42''))"
  by (simp add: form_value_def dec.simps digit_def ascii_def is_lead_def is_trail_def)

lemma no_string_form_raises: "to_string no_string_form = Inl RuntimeTypeError"
  by (simp add: no_string_form_def ascii_def)

subsection \<open>The computations\<close>

lemmas prog_defs = run_def after_def return_def throw_def lift_def bind_def try_catch_def
  await_http_def await_fetch_def console_error_def log_and_rethrow_def settle_def

lemmas method_defs = getLibraries_def getLibraryDetail_def createLibrary_def
  updateLibrary_def deleteLibrary_def addDocument_def updateDocument_def
  deleteDocument_def getUploadUrl_def crawlSite_def uploadLocalFile_def
  getKnowledgeGraph_def processOSSDocument_def

lemmas label_defs = label_getLibraries_def label_getLibraryDetail_def
  label_createLibrary_def label_updateLibrary_def label_deleteLibrary_def
  label_addDocument_def label_updateDocument_def label_deleteDocument_def
  label_getUploadUrl_def label_uploadFileToOSS_def label_crawlSite_def
  label_uploadLocalFile_def label_getKnowledgeGraph_def label_processOSSDocument_def

lemma bind_lift_value: "bind (lift (Inr x)) f = f x"
  by (simp add: prog_defs fun_eq_iff split: prod.splits sum.splits)

lemma bind_lift_raise: "bind (lift (Inl e)) f = throw e"
  by (simp add: prog_defs fun_eq_iff)

lemma bind_throw: "bind (throw e) f = throw e"
  by (simp add: prog_defs fun_eq_iff)

lemma bind_return: "bind (return x) f = f x"
  by (simp add: prog_defs fun_eq_iff split: prod.splits sum.splits)

lemma template_value: "to_string v = Inr s \<Longrightarrow> bind (template lit v) f = f (lit @ s)"
  by (simp add: template_def bind_lift_value bind_return)

lemma template_raise: "to_string v = Inl e \<Longrightarrow> bind (template lit v) f = throw e"
  by (simp add: template_def bind_lift_raise bind_throw)

lemma caught_raise:
  "run (try_catch (throw e) (log_and_rethrow l)) env = ([ConsoleError l e], Inl e)"
  by (simp add: prog_defs)

lemma wrapped_request_resolves:
  "httpClient env q = Inr r \<Longrightarrow>
   run (try_catch (bind (await_http q) return) (log_and_rethrow l)) env
     = ([HttpCall q], Inr r)"
  by (simp add: prog_defs)

lemma wrapped_request_rejects:
  "httpClient env q = Inl e \<Longrightarrow>
   run (try_catch (bind (await_http q) return) (log_and_rethrow l)) env
     = ([HttpCall q, ConsoleError l (Thrown e)], Inl (Thrown e))"
  by (simp add: prog_defs)

lemma wrapped_request_calls:
  "http_calls (fst (run (try_catch (bind (await_http q) return) (log_and_rethrow l)) env)) = [q]
   \<and> fetch_calls (fst (run (try_catch (bind (await_http q) return) (log_and_rethrow l)) env))
       = []"
  by (cases "httpClient env q") (simp_all add: prog_defs)

lemma spec_path_Some:
  "spec_path lit v = Some p \<Longrightarrow> \<exists>s. to_string v = Inr s \<and> p = lit @ s"
  by (auto simp: spec_path_def split: sum.splits)

lemma formdata_append_stored:
  "form_value v = Inr stored \<Longrightarrow>
   formdata_append es (ascii n) v = Inr (es @ [(ascii n, stored)])"
  by (simp add: formdata_append_def usv_string_ascii)

lemma formdata_append_raise:
  "form_value v = Inl e \<Longrightarrow> formdata_append es n v = Inl e"
  by (simp add: formdata_append_def)

lemma spec_fields_4:
  "spec_fields [(n1, v1), (n2, v2), (n3, v3), (n4, v4)] = Some fs \<Longrightarrow>
   \<exists>s1 s2 s3 s4. form_value v1 = Inr s1 \<and> form_value v2 = Inr s2 \<and> form_value v3 = Inr s3
     \<and> form_value v4 = Inr s4 \<and> fs = [(n1, s1), (n2, s2), (n3, s3), (n4, s4)]"
  by (auto split: sum.splits option.splits)

lemma diagnostic_label_inj: "diagnostic_label a = diagnostic_label b \<Longrightarrow> a = b"
  by (cases a; cases b; simp add: label_defs)

text \<open>Every operation but the direct upload has a row in \<open>spec_request\<close>.\<close>

lemma spec_request_upload: "spec_request OpUploadFileToOSS args = None"
  by simp

text \<open>Rows of the catalogue on examples.\<close>

lemma spec_request_examples:
  "spec_request OpDeleteDocument [Arr [Num False 1, Null, Str (ascii ''a'')]]
     = Some \<lparr>verb = DELETE, path = ascii ''/api/knowledge/documents/1,,a'', payload = None\<rparr>"
  "spec_request OpGetKnowledgeGraph [Str (ascii ''col-1'')]
     = Some \<lparr>verb = GET, path = ascii ''/api/visual/graph/col-1'',
             payload = Some (Obj [(ascii ''label'', Str (ascii ''*''))])\<rparr>"
  "spec_request OpGetKnowledgeGraph [Str (ascii ''col-1''), Null]
     = Some \<lparr>verb = GET, path = ascii ''/api/visual/graph/col-1'',
             payload = Some (Obj [(ascii ''label'', Null)])\<rparr>"
  "spec_request OpUpdateLibrary [Undefined, Undefined]
     = Some \<lparr>verb = PUT, path = ascii ''/api/knowledge/libraries/undefined'',
             payload = Some Undefined\<rparr>"
  "spec_request OpGetLibraryDetail [no_string_form] = None"
  by (simp_all add: arg_def spec_path_def no_string_form_def dec.simps digit_def ascii_def)

lemma spec_request_form_example:
  "spec_request OpUploadLocalFile [FileV sample_file, Str [0x61, 0xD800], Num False 42]
     = Some \<lparr>verb = POST, path = ascii ''/api/upload/process'',
             payload = Some (FormDataV
               [(ascii ''file'', FileV sample_file),
                (ascii ''collection_id'', Str [0x61, 0xFFFD]),
                (ascii ''library_id'', Str (ascii ''42'')),
                (ascii ''chunk_strategy'', Str (ascii ''markdown''))])\<rparr>"
  by (simp add: arg_def form_value_examples form_value_number form_value_ascii)

text \<open>
  C1 (as amended). For each of the thirteen operations that go through the transport
  and for all arguments whose string conversions do not raise (the identifier put into
  the path, the values appended to the form), so that the catalogue row has a request:
  when the transport resolves that request with a value \<open>r\<close>, the operation issues
  exactly that one request, logs nothing, and resolves with \<open>r\<close> itself.
\<close>

theorem catalogue_success_passthrough:
  assumes "spec_request op args = Some q" and "httpClient env q = Inr r"
  shows "run (invoke op args) env = ([HttpCall q], Inr r)"
proof (cases op)
  case OpUploadLocalFile
  from assms(1) obtain fs where
    sf: "spec_fields
          [(ascii ''file'', arg args 0), (ascii ''collection_id'', arg args 1),
           (ascii ''library_id'', arg args 2),
           (ascii ''chunk_strategy'', default_param (arg args 3) (Str (ascii ''markdown'')))]
         = Some fs"
    and q0: "q = \<lparr>verb = POST, path = ascii ''/api/upload/process'',
                  payload = Some (FormDataV fs)\<rparr>"
    unfolding OpUploadLocalFile spec_request.simps default_param_def
    by (auto simp del: spec_fields.simps)
  from spec_fields_4 [OF sf] obtain s1 s2 s3 s4 where
    f: "form_value (arg args 0) = Inr s1" "form_value (arg args 1) = Inr s2"
       "form_value (arg args 2) = Inr s3"
       "form_value (default_param (arg args 3) (Str (ascii ''markdown''))) = Inr s4"
    and fs: "fs = [(ascii ''file'', s1), (ascii ''collection_id'', s2),
                   (ascii ''library_id'', s3), (ascii ''chunk_strategy'', s4)]"
    by blast
  have q: "q = \<lparr>verb = POST, path = ascii ''/api/upload/process'',
                 payload = Some (FormDataV
                    [(ascii ''file'', s1), (ascii ''collection_id'', s2),
                     (ascii ''library_id'', s3), (ascii ''chunk_strategy'', s4)])\<rparr>"
    using q0 fs by simp
  show ?thesis
    unfolding OpUploadLocalFile invoke.simps uploadLocalFile_def
    using assms(2) q f
    by (simp add: Let_def formdata_append_stored bind_lift_value wrapped_request_resolves)
next
  case OpUploadFileToOSS
  with assms(1) show ?thesis by simp
qed (use assms in \<open>auto simp: method_defs default_param_def Let_def template_value
       wrapped_request_resolves dest!: spec_path_Some\<close>)

text \<open>
  \<open>getLibraryDetail(42)\<close> and \<open>deleteDocument([1, null, 'a'])\<close> against a transport that
  answers with the path it was asked for.
\<close>

theorem catalogue_success_passthrough_witness:
  "spec_request OpGetLibraryDetail [Num False 42]
     = Some \<lparr>verb = GET, path = ascii ''/api/knowledge/libraries/42'', payload = None\<rparr>
   \<and> httpClient echo_env
         \<lparr>verb = GET, path = ascii ''/api/knowledge/libraries/42'', payload = None\<rparr>
       = Inr (Obj [(ascii ''path'', Str (ascii ''/api/knowledge/libraries/42''))])
   \<and> run (invoke OpGetLibraryDetail [Num False 42]) echo_env
       = ([HttpCall \<lparr>verb = GET, path = ascii ''/api/knowledge/libraries/42'',
                      payload = None\<rparr>],
          Inr (Obj [(ascii ''path'', Str (ascii ''/api/knowledge/libraries/42''))]))
   \<and> spec_request OpDeleteDocument [Arr [Num False 1, Null, Str (ascii ''a'')]]
       = Some \<lparr>verb = DELETE, path = ascii ''/api/knowledge/documents/1,,a'',
               payload = None\<rparr>
   \<and> httpClient echo_env
         \<lparr>verb = DELETE, path = ascii ''/api/knowledge/documents/1,,a'', payload = None\<rparr>
       = Inr (Obj [(ascii ''path'', Str (ascii ''/api/knowledge/documents/1,,a''))])
   \<and> run (invoke OpDeleteDocument [Arr [Num False 1, Null, Str (ascii ''a'')]]) echo_env
       = ([HttpCall \<lparr>verb = DELETE, path = ascii ''/api/knowledge/documents/1,,a'',
                      payload = None\<rparr>],
          Inr (Obj [(ascii ''path'', Str (ascii ''/api/knowledge/documents/1,,a''))]))"
proof -
  have h1: "spec_request OpGetLibraryDetail [Num False 42]
     = Some \<lparr>verb = GET, path = ascii ''/api/knowledge/libraries/42'', payload = None\<rparr>"
    by (simp add: arg_def spec_path_def ascii_def dec.simps digit_def)
  have h2: "httpClient echo_env
         \<lparr>verb = GET, path = ascii ''/api/knowledge/libraries/42'', payload = None\<rparr>
       = Inr (Obj [(ascii ''path'', Str (ascii ''/api/knowledge/libraries/42''))])"
    by (simp add: echo_env_def module_loaded_def)
  note h3 = spec_request_examples(1)
  have h4: "httpClient echo_env
         \<lparr>verb = DELETE, path = ascii ''/api/knowledge/documents/1,,a'', payload = None\<rparr>
       = Inr (Obj [(ascii ''path'', Str (ascii ''/api/knowledge/documents/1,,a''))])"
    by (simp add: echo_env_def module_loaded_def)
  from catalogue_success_passthrough [OF h1 h2] catalogue_success_passthrough [OF h3 h4]
    h1 h2 h3 h4
  show ?thesis by simp
qed

text \<open>
  The claim as it was stated, for every input value, fails: \<open>getLibraryDetail({toString: 1})\<close>
  against a transport that resolves every request. The template literal raises, no
  request is issued, and the call rejects with the \<open>TypeError\<close>.
\<close>

theorem catalogue_passthrough_counterexample:
  "run (invoke OpGetLibraryDetail [no_string_form]) echo_env
     = ([ConsoleError label_getLibraryDetail RuntimeTypeError], Inl RuntimeTypeError)"
  by (simp add: arg_def getLibraryDetail_def template_raise no_string_form_raises caught_raise)

subsection \<open>Rejections\<close>

lemma catalogue_request_rejected:
  assumes "spec_request op args = Some q" and "httpClient env q = Inl e"
  shows "run (invoke op args) env
           = ([HttpCall q, ConsoleError (diagnostic_label op) (Thrown e)], Inl (Thrown e))"
proof (cases op)
  case OpUploadLocalFile
  from assms(1) obtain fs where
    sf: "spec_fields
          [(ascii ''file'', arg args 0), (ascii ''collection_id'', arg args 1),
           (ascii ''library_id'', arg args 2),
           (ascii ''chunk_strategy'', default_param (arg args 3) (Str (ascii ''markdown'')))]
         = Some fs"
    and q0: "q = \<lparr>verb = POST, path = ascii ''/api/upload/process'',
                  payload = Some (FormDataV fs)\<rparr>"
    unfolding OpUploadLocalFile spec_request.simps default_param_def
    by (auto simp del: spec_fields.simps)
  from spec_fields_4 [OF sf] obtain s1 s2 s3 s4 where
    f: "form_value (arg args 0) = Inr s1" "form_value (arg args 1) = Inr s2"
       "form_value (arg args 2) = Inr s3"
       "form_value (default_param (arg args 3) (Str (ascii ''markdown''))) = Inr s4"
    and fs: "fs = [(ascii ''file'', s1), (ascii ''collection_id'', s2),
                   (ascii ''library_id'', s3), (ascii ''chunk_strategy'', s4)]"
    by blast
  have q: "q = \<lparr>verb = POST, path = ascii ''/api/upload/process'',
                 payload = Some (FormDataV
                    [(ascii ''file'', s1), (ascii ''collection_id'', s2),
                     (ascii ''library_id'', s3), (ascii ''chunk_strategy'', s4)])\<rparr>"
    using q0 fs by simp
  show ?thesis
    unfolding OpUploadLocalFile invoke.simps uploadLocalFile_def
    using assms(2) q f
    by (simp add: Let_def formdata_append_stored bind_lift_value wrapped_request_rejects)
next
  case OpUploadFileToOSS
  with assms(1) show ?thesis by simp
qed (use assms in \<open>auto simp: method_defs default_param_def Let_def template_value
       wrapped_request_rejects dest!: spec_path_Some\<close>)

lemma formdata_append_file:
  "formdata_append [] (ascii ''file'') (FileV f) = Inr [(ascii ''file'', FileV f)]"
  by (simp add: formdata_append_def form_value_def usv_string_ascii)

lemma upload_fetch_rejected:
  assumes "formdata_append [] (ascii ''file'') file = Inr formData"
    and "read_type file = Inr ct"
    and "fetch env \<lparr>url = uploadUrl, req_method = ascii ''PUT'', body = file,
                    headers = [(ascii ''Content-Type'', ct)]\<rparr> = Inl e"
  shows "run (uploadFileToOSS uploadUrl file) env =
           ([FetchCall \<lparr>url = uploadUrl, req_method = ascii ''PUT'', body = file,
                        headers = [(ascii ''Content-Type'', ct)]\<rparr>,
             ConsoleError label_uploadFileToOSS (Thrown e)],
            Inl (Thrown e))"
  using assms by (simp add: uploadFileToOSS_def prog_defs Let_def)

text \<open>
  C2. For each operation of the catalogue and every failure value \<open>e\<close>: when the
  transport rejects the operation's request with \<open>e\<close> (for the direct upload of a
  \<open>File\<close>: when \<open>fetch\<close> rejects with \<open>e\<close>), the operation issues that one request (no
  second attempt), logs exactly one diagnostic, \<open>e\<close> under the operation's own label,
  and rejects with \<open>e\<close> itself. No two operations share a label.
\<close>

theorem catalogue_failure_propagates:
  "(spec_request op args = Some q \<and> httpClient env q = Inl e \<longrightarrow>
      run (invoke op args) env
        = ([HttpCall q, ConsoleError (diagnostic_label op) (Thrown e)], Inl (Thrown e)))
   \<and> (fetch env (spec_upload_request uploadUrl f) = Inl e \<longrightarrow>
      run (invoke OpUploadFileToOSS [uploadUrl, FileV f]) env
        = ([FetchCall (spec_upload_request uploadUrl f),
            ConsoleError (diagnostic_label OpUploadFileToOSS) (Thrown e)],
           Inl (Thrown e)))
   \<and> (\<forall>op'. diagnostic_label op' = diagnostic_label op \<longrightarrow> op' = op)"
proof (intro conjI impI)
  assume "spec_request op args = Some q \<and> httpClient env q = Inl e"
  then show "run (invoke op args) env
        = ([HttpCall q, ConsoleError (diagnostic_label op) (Thrown e)], Inl (Thrown e))"
    using catalogue_request_rejected by blast
next
  assume r: "fetch env (spec_upload_request uploadUrl f) = Inl e"
  have t: "read_type (FileV f) = Inr (Str (file_type f))" by simp
  show "run (invoke OpUploadFileToOSS [uploadUrl, FileV f]) env
        = ([FetchCall (spec_upload_request uploadUrl f),
            ConsoleError (diagnostic_label OpUploadFileToOSS) (Thrown e)],
           Inl (Thrown e))"
    using upload_fetch_rejected [OF formdata_append_file t, of env uploadUrl e] r
    by (simp add: arg_def spec_upload_request_def)
next
  show "\<forall>op'. diagnostic_label op' = diagnostic_label op \<longrightarrow> op' = op"
    using diagnostic_label_inj by blast
qed

text \<open>
  \<open>createLibrary({title: 't'})\<close> against a transport that rejects every request, and
  the upload of a file against a \<open>fetch\<close> that rejects.
\<close>

theorem catalogue_failure_propagates_witness:
  "spec_request OpCreateLibrary [Obj [(ascii ''title'', Str (ascii ''t''))]]
     = Some \<lparr>verb = POST, path = ascii ''/api/knowledge/libraries'',
             payload = Some (Obj [(ascii ''title'', Str (ascii ''t''))])\<rparr>
   \<and> httpClient failing_env
         \<lparr>verb = POST, path = ascii ''/api/knowledge/libraries'',
          payload = Some (Obj [(ascii ''title'', Str (ascii ''t''))])\<rparr>
       = Inl (ErrorV (ascii ''Network Error''))
   \<and> run (invoke OpCreateLibrary [Obj [(ascii ''title'', Str (ascii ''t''))]]) failing_env
       = ([HttpCall \<lparr>verb = POST, path = ascii ''/api/knowledge/libraries'',
                      payload = Some (Obj [(ascii ''title'', Str (ascii ''t''))])\<rparr>,
           ConsoleError label_createLibrary (Thrown (ErrorV (ascii ''Network Error'')))],
          Inl (Thrown (ErrorV (ascii ''Network Error''))))
   \<and> fetch get_only_env (spec_upload_request (Str (ascii ''https://oss.test/a.pdf?sig=1''))
                           sample_file)
       = Inl Null
   \<and> run (invoke OpUploadFileToOSS
             [Str (ascii ''https://oss.test/a.pdf?sig=1''), FileV sample_file]) get_only_env
       = ([FetchCall (spec_upload_request (Str (ascii ''https://oss.test/a.pdf?sig=1''))
                        sample_file),
           ConsoleError label_uploadFileToOSS (Thrown Null)],
          Inl (Thrown Null))"
proof -
  have h1: "spec_request OpCreateLibrary [Obj [(ascii ''title'', Str (ascii ''t''))]]
     = Some \<lparr>verb = POST, path = ascii ''/api/knowledge/libraries'',
             payload = Some (Obj [(ascii ''title'', Str (ascii ''t''))])\<rparr>"
    by (simp add: arg_def)
  have h2: "httpClient failing_env
         \<lparr>verb = POST, path = ascii ''/api/knowledge/libraries'',
          payload = Some (Obj [(ascii ''title'', Str (ascii ''t''))])\<rparr>
       = Inl (ErrorV (ascii ''Network Error''))"
    by (simp add: failing_env_def module_loaded_def)
  have h3: "fetch get_only_env
              (spec_upload_request (Str (ascii ''https://oss.test/a.pdf?sig=1'')) sample_file)
            = Inl Null"
    by (simp add: get_only_env_def module_loaded_def)
  have c1: "run (invoke OpCreateLibrary [Obj [(ascii ''title'', Str (ascii ''t''))]]) failing_env
       = ([HttpCall \<lparr>verb = POST, path = ascii ''/api/knowledge/libraries'',
                      payload = Some (Obj [(ascii ''title'', Str (ascii ''t''))])\<rparr>,
           ConsoleError (diagnostic_label OpCreateLibrary)
             (Thrown (ErrorV (ascii ''Network Error'')))],
          Inl (Thrown (ErrorV (ascii ''Network Error''))))"
    using catalogue_failure_propagates
      [of OpCreateLibrary "[Obj [(ascii ''title'', Str (ascii ''t''))]]" _ failing_env]
      h1 h2
    by blast
  have c2: "run (invoke OpUploadFileToOSS
             [Str (ascii ''https://oss.test/a.pdf?sig=1''), FileV sample_file]) get_only_env
       = ([FetchCall (spec_upload_request (Str (ascii ''https://oss.test/a.pdf?sig=1''))
                        sample_file),
           ConsoleError (diagnostic_label OpUploadFileToOSS) (Thrown Null)],
          Inl (Thrown Null))"
    using catalogue_failure_propagates [of _ _ _ get_only_env] h3
    by blast
  show ?thesis using h1 h2 h3 c1 c2 by simp
qed

subsection \<open>The direct upload\<close>

lemma split_nonempty: "split s c \<noteq> []"
  by (induction s) (auto split: list.splits)

lemma hd_split: "hd (split s c) = takeWhile (\<lambda>x. x \<noteq> c) s"
proof (induction s)
  case Nil
  show ?case by simp
next
  case (Cons x xs)
  show ?case
  proof (cases "x = c")
    case True
    then show ?thesis by simp
  next
    case False
    obtain p ps where sp: "split xs c = p # ps"
      using split_nonempty [of xs c] by (cases "split xs c") auto
    with Cons False show ?thesis by simp
  qed
qed

lemma index_split_0: "index_js (split s c) 0 = Str (takeWhile (\<lambda>x. x \<noteq> c) s)"
  using split_nonempty [of s c] hd_split [of s c]
  by (cases "split s c") (auto simp: index_js_def)

lemma takeWhile_first: "c \<notin> set p \<Longrightarrow> takeWhile (\<lambda>x. x \<noteq> c) (p @ c # rest) = p"
  by (induction p) auto

lemma split_examples:
  "split (ascii ''a?b?c'') qmark = [ascii ''a'', ascii ''b'', ascii ''c'']"
  "split (ascii ''?x'') qmark = [[], ascii ''x'']"
  "split [] qmark = [[]]"
  by (simp_all add: ascii_def qmark_def)

lemma upload_resolves:
  assumes "formdata_append [] (ascii ''file'') file = Inr formData"
    and "read_type file = Inr ct"
    and "fetch env \<lparr>url = Str uploadUrl, req_method = ascii ''PUT'', body = file,
                    headers = [(ascii ''Content-Type'', ct)]\<rparr> = Inr r"
    and "200 \<le> status r" and "status r \<le> 299"
  shows "run (uploadFileToOSS (Str uploadUrl) file) env =
           ([FetchCall \<lparr>url = Str uploadUrl, req_method = ascii ''PUT'', body = file,
                        headers = [(ascii ''Content-Type'', ct)]\<rparr>],
            Inr (Obj [(ascii ''success'', Bool True),
                      (ascii ''url'', Str (takeWhile (\<lambda>x. x \<noteq> qmark) uploadUrl))]))"
  using assms
  by (simp add: uploadFileToOSS_def prog_defs ok_def call_split_def index_split_0 Let_def)

lemma upload_rejects:
  assumes "formdata_append [] (ascii ''file'') file = Inr formData"
    and "read_type file = Inr ct"
    and "fetch env \<lparr>url = uploadUrl, req_method = ascii ''PUT'', body = file,
                    headers = [(ascii ''Content-Type'', ct)]\<rparr> = Inr r"
    and "\<not> (200 \<le> status r \<and> status r \<le> 299)"
  shows "run (uploadFileToOSS uploadUrl file) env =
           ([FetchCall \<lparr>url = uploadUrl, req_method = ascii ''PUT'', body = file,
                        headers = [(ascii ''Content-Type'', ct)]\<rparr>,
             ConsoleError label_uploadFileToOSS
               (Thrown (ErrorV (upload_failed @ dec (status r) @ ascii '' '' @ statusText r)))],
            Inl (Thrown (ErrorV (upload_failed @ dec (status r) @ ascii '' '' @ statusText r))))"
  using assms
  by (auto simp add: uploadFileToOSS_def prog_defs ok_def Let_def)

lemma dec_403: "dec 403 = ascii ''403''"
  by (simp add: dec.simps digit_def ascii_def)

lemma message_has_status: "sublist (dec n) (upload_failed @ dec n @ ascii '' '' @ t)"
  by simp

lemma message_has_statusText: "sublist t (upload_failed @ dec n @ ascii '' '' @ t)"
  by (metis append_assoc sublist_append_leftI)

text \<open>
  C3. For every \<open>uploadUrl\<close> string and every file (any value on which the method gets
  as far as \<open>fetch\<close>: the unused form accepts it and its \<open>type\<close> can be read, as for every
  \<open>File\<close>): when \<open>fetch\<close> resolves with a response of status 200 to 299,
  \<open>uploadFileToOSS\<close> resolves with \<open>{success: true, url}\<close> where \<open>url\<close> is \<open>uploadUrl\<close> up
  to its first \<open>?\<close>: whenever \<open>uploadUrl\<close> is \<open>p\<close>, a \<open>?\<close>, and any rest (further \<open>?\<close>
  included) with no \<open>?\<close> in \<open>p\<close>, the \<open>url\<close> is \<open>p\<close>.
\<close>

theorem upload_success_strips_query:
  assumes "formdata_append [] (ascii ''file'') file = Inr formData"
    and "read_type file = Inr contentType"
    and "fetch env \<lparr>url = Str uploadUrl, req_method = ascii ''PUT'', body = file,
                    headers = [(ascii ''Content-Type'', contentType)]\<rparr> = Inr r"
    and "200 \<le> status r" and "status r \<le> 299"
  shows "run (uploadFileToOSS (Str uploadUrl) file) env =
           ([FetchCall \<lparr>url = Str uploadUrl, req_method = ascii ''PUT'', body = file,
                        headers = [(ascii ''Content-Type'', contentType)]\<rparr>],
            Inr (Obj [(ascii ''success'', Bool True),
                      (ascii ''url'', Str (takeWhile (\<lambda>x. x \<noteq> qmark) uploadUrl))]))
         \<and> (\<forall>p rest. uploadUrl = p @ qmark # rest \<and> qmark \<notin> set p
               \<longrightarrow> takeWhile (\<lambda>x. x \<noteq> qmark) uploadUrl = p)"
  using upload_resolves [OF assms] by (simp add: takeWhile_first)

text \<open>A pre-signed URL with two \<open>?\<close> is cut at the first.\<close>

theorem upload_success_strips_query_witness:
  "formdata_append [] (ascii ''file'') (FileV sample_file)
     = Inr [(ascii ''file'', FileV sample_file)]
   \<and> read_type (FileV sample_file) = Inr (Str (ascii ''application/pdf''))
   \<and> fetch echo_env \<lparr>url = Str (ascii ''https://oss.test/a.pdf?sig=1?x=2''),
                      req_method = ascii ''PUT'', body = FileV sample_file,
                      headers = [(ascii ''Content-Type'', Str (ascii ''application/pdf''))]\<rparr>
       = Inr \<lparr>status = 200, statusText = ascii ''OK''\<rparr>
   \<and> snd (run (uploadFileToOSS (Str (ascii ''https://oss.test/a.pdf?sig=1?x=2''))
                 (FileV sample_file)) echo_env)
       = Inr (Obj [(ascii ''success'', Bool True),
                   (ascii ''url'', Str (ascii ''https://oss.test/a.pdf''))])"
proof -
  note h0 = formdata_append_file [of sample_file]
  have h1: "read_type (FileV sample_file) = Inr (Str (ascii ''application/pdf''))"
    by (simp add: sample_file_def)
  have h2: "fetch echo_env \<lparr>url = Str (ascii ''https://oss.test/a.pdf?sig=1?x=2''),
                      req_method = ascii ''PUT'', body = FileV sample_file,
                      headers = [(ascii ''Content-Type'', Str (ascii ''application/pdf''))]\<rparr>
       = Inr \<lparr>status = 200, statusText = ascii ''OK''\<rparr>"
    by (simp add: echo_env_def module_loaded_def)
  have h3: "200 \<le> status \<lparr>status = 200, statusText = ascii ''OK''\<rparr>" by simp
  have h4: "status \<lparr>status = 200, statusText = ascii ''OK''\<rparr> \<le> 299" by simp
  have t: "takeWhile (\<lambda>x. x \<noteq> qmark) (ascii ''https://oss.test/a.pdf?sig=1?x=2'')
             = ascii ''https://oss.test/a.pdf''"
    by (simp add: ascii_def qmark_def)
  from upload_success_strips_query [OF h0 h1 h2 h3 h4] h0 h1 h2 t show ?thesis by simp
qed

text \<open>For a \<open>File\<close> the first two hypotheses always hold.\<close>

lemma upload_of_file_resolves:
  assumes "fetch env (spec_upload_request (Str uploadUrl) f) = Inr r"
    and "200 \<le> status r" and "status r \<le> 299"
  shows "run (uploadFileToOSS (Str uploadUrl) (FileV f)) env =
           ([FetchCall (spec_upload_request (Str uploadUrl) f)],
            Inr (Obj [(ascii ''success'', Bool True),
                      (ascii ''url'', Str (takeWhile (\<lambda>x. x \<noteq> qmark) uploadUrl))]))"
proof -
  have t: "read_type (FileV f) = Inr (Str (file_type f))" by simp
  show ?thesis
    using upload_resolves [OF formdata_append_file t, of env uploadUrl r] assms
    by (simp add: spec_upload_request_def)
qed

text \<open>
  C4. For every \<open>uploadUrl\<close> and file (as in C3): when \<open>fetch\<close> resolves with a response
  whose status is outside 200 to 299, \<open>uploadFileToOSS\<close> rejects with a new \<open>Error\<close>
  whose message contains the status in decimal and the status text (the error is logged
  once on the way out); for status 403 the message contains \<open>403\<close>.
\<close>

theorem upload_failure_reports_status:
  assumes "formdata_append [] (ascii ''file'') file = Inr formData"
    and "read_type file = Inr contentType"
    and "fetch env \<lparr>url = uploadUrl, req_method = ascii ''PUT'', body = file,
                    headers = [(ascii ''Content-Type'', contentType)]\<rparr> = Inr r"
    and "status r < 200 \<or> 299 < status r"
  shows "(let msg = upload_failed @ dec (status r) @ ascii '' '' @ statusText r in
          run (uploadFileToOSS uploadUrl file) env =
            ([FetchCall \<lparr>url = uploadUrl, req_method = ascii ''PUT'', body = file,
                         headers = [(ascii ''Content-Type'', contentType)]\<rparr>,
              ConsoleError label_uploadFileToOSS (Thrown (ErrorV msg))],
             Inl (Thrown (ErrorV msg)))
          \<and> sublist (dec (status r)) msg
          \<and> sublist (statusText r) msg
          \<and> (status r = 403 \<longrightarrow> sublist (ascii ''403'') msg))"
proof -
  have n: "\<not> (200 \<le> status r \<and> status r \<le> 299)"
    using assms(4) by auto
  have s403: "status r = 403 \<Longrightarrow>
      sublist (ascii ''403'') (upload_failed @ dec (status r) @ ascii '' '' @ statusText r)"
    using message_has_status [of 403 "statusText r"] by (simp add: dec_403)
  show ?thesis
    unfolding Let_def
    using upload_rejects [OF assms(1) assms(2) assms(3) n]
      message_has_status message_has_statusText s403
    by blast
qed

text \<open>A response \<open>403 Forbidden\<close>.\<close>

theorem upload_failure_reports_status_witness:
  "formdata_append [] (ascii ''file'') (FileV sample_file)
     = Inr [(ascii ''file'', FileV sample_file)]
   \<and> read_type (FileV sample_file) = Inr (Str (ascii ''application/pdf''))
   \<and> fetch failing_env \<lparr>url = Str (ascii ''https://oss.test/a.pdf?sig=1''),
                      req_method = ascii ''PUT'', body = FileV sample_file,
                      headers = [(ascii ''Content-Type'', Str (ascii ''application/pdf''))]\<rparr>
       = Inr \<lparr>status = 403, statusText = ascii ''Forbidden''\<rparr>
   \<and> snd (run (uploadFileToOSS (Str (ascii ''https://oss.test/a.pdf?sig=1''))
                 (FileV sample_file)) failing_env)
       = Inl (Thrown (ErrorV (upload_failed @ ascii ''403 Forbidden'')))
   \<and> sublist (ascii ''403'') (upload_failed @ ascii ''403 Forbidden'')"
proof -
  note h0 = formdata_append_file [of sample_file]
  have h1: "read_type (FileV sample_file) = Inr (Str (ascii ''application/pdf''))"
    by (simp add: sample_file_def)
  have h2: "fetch failing_env \<lparr>url = Str (ascii ''https://oss.test/a.pdf?sig=1''),
                      req_method = ascii ''PUT'', body = FileV sample_file,
                      headers = [(ascii ''Content-Type'', Str (ascii ''application/pdf''))]\<rparr>
       = Inr \<lparr>status = 403, statusText = ascii ''Forbidden''\<rparr>"
    by (simp add: failing_env_def module_loaded_def)
  have h3: "status \<lparr>status = 403, statusText = ascii ''Forbidden''\<rparr> < 200
            \<or> 299 < status \<lparr>status = 403, statusText = ascii ''Forbidden''\<rparr>"
    by simp
  have m: "dec 403 @ ascii '' '' @ ascii ''Forbidden'' = ascii ''403 Forbidden''"
    by (simp add: dec_403 ascii_def)
  from upload_failure_reports_status [OF h0 h1 h2 h3] h0 h1 h2 m show ?thesis
    by (simp add: Let_def)
qed

lemma upload_fetch_calls:
  assumes "formdata_append [] (ascii ''file'') file = Inr formData"
    and "read_type file = Inr ct"
  shows "fetch_calls (fst (run (uploadFileToOSS uploadUrl file) env))
           = [\<lparr>url = uploadUrl, req_method = ascii ''PUT'', body = file,
               headers = [(ascii ''Content-Type'', ct)]\<rparr>]
         \<and> http_calls (fst (run (uploadFileToOSS uploadUrl file) env)) = []"
  using assms
  by (simp add: uploadFileToOSS_def prog_defs Let_def split: sum.splits prod.splits)

text \<open>
  C5. For every \<open>uploadUrl\<close> and every \<open>File\<close>, whatever \<open>fetch\<close> answers:
  \<open>uploadFileToOSS\<close> calls \<open>fetch\<close> exactly once, with method \<open>PUT\<close>, the file itself
  as the body and the file's \<open>type\<close> as \<open>Content-Type\<close>; it never calls the shared
  transport; and the body is not the form that the method builds.
\<close>

theorem direct_upload_request:
  "fetch_calls (fst (run (uploadFileToOSS uploadUrl (FileV f)) env))
     = [\<lparr>url = uploadUrl, req_method = ascii ''PUT'', body = FileV f,
         headers = [(ascii ''Content-Type'', Str (file_type f))]\<rparr>]
   \<and> http_calls (fst (run (uploadFileToOSS uploadUrl (FileV f)) env)) = []
   \<and> formdata_append [] (ascii ''file'') (FileV f) = Inr [(ascii ''file'', FileV f)]
   \<and> FileV f \<noteq> FormDataV [(ascii ''file'', FileV f)]"
  using upload_fetch_calls [OF formdata_append_file, of f "Str (file_type f)" uploadUrl env]
    formdata_append_file [of f]
  by simp

text \<open>
  C9. For every \<open>uploadUrl\<close> string with no \<open>?\<close> in it (and every file, as in C3), a
  successful upload resolves with \<open>url\<close> equal to \<open>uploadUrl\<close>.
\<close>

theorem upload_url_without_query_unchanged:
  assumes "qmark \<notin> set uploadUrl"
    and "formdata_append [] (ascii ''file'') file = Inr formData"
    and "read_type file = Inr contentType"
    and "fetch env \<lparr>url = Str uploadUrl, req_method = ascii ''PUT'', body = file,
                    headers = [(ascii ''Content-Type'', contentType)]\<rparr> = Inr r"
    and "200 \<le> status r" and "status r \<le> 299"
  shows "run (uploadFileToOSS (Str uploadUrl) file) env =
           ([FetchCall \<lparr>url = Str uploadUrl, req_method = ascii ''PUT'', body = file,
                        headers = [(ascii ''Content-Type'', contentType)]\<rparr>],
            Inr (Obj [(ascii ''success'', Bool True), (ascii ''url'', Str uploadUrl)]))"
proof -
  have "takeWhile (\<lambda>x. x \<noteq> qmark) uploadUrl = uploadUrl"
    using assms(1) by (auto simp: takeWhile_eq_all_conv)
  with upload_resolves [OF assms(2-6)] show ?thesis by simp
qed

text \<open>A URL with no query string.\<close>

theorem upload_url_without_query_unchanged_witness:
  "qmark \<notin> set (ascii ''https://oss.test/a.pdf'')
   \<and> formdata_append [] (ascii ''file'') (FileV sample_file)
       = Inr [(ascii ''file'', FileV sample_file)]
   \<and> read_type (FileV sample_file) = Inr (Str (ascii ''application/pdf''))
   \<and> fetch echo_env \<lparr>url = Str (ascii ''https://oss.test/a.pdf''),
                      req_method = ascii ''PUT'', body = FileV sample_file,
                      headers = [(ascii ''Content-Type'', Str (ascii ''application/pdf''))]\<rparr>
       = Inr \<lparr>status = 200, statusText = ascii ''OK''\<rparr>
   \<and> snd (run (uploadFileToOSS (Str (ascii ''https://oss.test/a.pdf'')) (FileV sample_file))
            echo_env)
       = Inr (Obj [(ascii ''success'', Bool True),
                   (ascii ''url'', Str (ascii ''https://oss.test/a.pdf''))])"
proof -
  have h0: "qmark \<notin> set (ascii ''https://oss.test/a.pdf'')"
    by (simp add: ascii_def qmark_def)
  note hf = formdata_append_file [of sample_file]
  have h1: "read_type (FileV sample_file) = Inr (Str (ascii ''application/pdf''))"
    by (simp add: sample_file_def)
  have h2: "fetch echo_env \<lparr>url = Str (ascii ''https://oss.test/a.pdf''),
                      req_method = ascii ''PUT'', body = FileV sample_file,
                      headers = [(ascii ''Content-Type'', Str (ascii ''application/pdf''))]\<rparr>
       = Inr \<lparr>status = 200, statusText = ascii ''OK''\<rparr>"
    by (simp add: echo_env_def module_loaded_def)
  have h3: "200 \<le> status \<lparr>status = 200, statusText = ascii ''OK''\<rparr>" by simp
  have h4: "status \<lparr>status = 200, statusText = ascii ''OK''\<rparr> \<le> 299" by simp
  from upload_url_without_query_unchanged [OF h0 hf h1 h2 h3 h4] h0 hf h1 h2
  show ?thesis by simp
qed

subsection \<open>Requests that follow a conversion\<close>

lemma template_as_lift:
  "template lit v = lift (case to_string v of Inl e \<Rightarrow> Inl e | Inr s \<Rightarrow> Inr (lit @ s))"
  by (cases "to_string v") (simp_all add: template_def prog_defs fun_eq_iff)

lemma guarded_request_calls:
  "http_calls (fst (run (try_catch (bind (lift R) (\<lambda>x. bind (await_http (Q x)) return))
                            (log_and_rethrow l)) env))
     = (case R of Inl e \<Rightarrow> [] | Inr x \<Rightarrow> [Q x])
   \<and> fetch_calls (fst (run (try_catch (bind (lift R) (\<lambda>x. bind (await_http (Q x)) return))
                               (log_and_rethrow l)) env))
     = []"
proof (cases R)
  case (Inl e)
  then show ?thesis by (simp add: bind_lift_raise caught_raise)
next
  case (Inr x)
  then show ?thesis by (simp add: bind_lift_value wrapped_request_calls)
qed

lemma form_chain:
  "(let formData = [] in
    bind (lift (formdata_append formData n1 v1)) (\<lambda>formData.
    bind (lift (formdata_append formData n2 v2)) (\<lambda>formData.
    bind (lift (formdata_append formData n3 v3)) (\<lambda>formData.
    bind (lift (formdata_append formData n4 v4)) f))))
   = bind (lift
       (case formdata_append [] n1 v1 of Inl e \<Rightarrow> Inl e | Inr a \<Rightarrow>
        (case formdata_append a n2 v2 of Inl e \<Rightarrow> Inl e | Inr b \<Rightarrow>
         (case formdata_append b n3 v3 of Inl e \<Rightarrow> Inl e | Inr c \<Rightarrow>
          formdata_append c n4 v4)))) f"
  by (simp add: Let_def bind_lift_value bind_lift_raise bind_throw split: sum.splits)

text \<open>
  C6 (as amended). For every \<open>collectionId\<close> whose string conversion does not raise,
  \<open>getKnowledgeGraph(collectionId)\<close> with no label issues exactly one request: \<open>GET\<close> on
  \<open>/api/visual/graph/\<close> followed by the string form of \<open>collectionId\<close>, with the query
  object \<open>{label: '*'}\<close>. For a string \<open>collectionId\<close> the path ends with that string.
\<close>

theorem graph_default_label:
  "(to_string collectionId = Inr t \<longrightarrow>
      http_calls (fst (run (invoke OpGetKnowledgeGraph [collectionId]) env))
        = [\<lparr>verb = GET, path = ascii ''/api/visual/graph/'' @ t,
            payload = Some (Obj [(ascii ''label'', Str (ascii ''*''))])\<rparr>]
      \<and> fetch_calls (fst (run (invoke OpGetKnowledgeGraph [collectionId]) env)) = [])
   \<and> http_calls (fst (run (invoke OpGetKnowledgeGraph [Str s]) env))
        = [\<lparr>verb = GET, path = ascii ''/api/visual/graph/'' @ s,
            payload = Some (Obj [(ascii ''label'', Str (ascii ''*''))])\<rparr>]"
  by (simp add: getKnowledgeGraph_def arg_def default_param_def template_value
        wrapped_request_calls)

text \<open>\<open>getKnowledgeGraph('col-1')\<close> and \<open>getKnowledgeGraph(7)\<close>.\<close>

theorem graph_default_label_witness:
  "to_string (Num False 7) = Inr (ascii ''7'')
   \<and> http_calls (fst (run (invoke OpGetKnowledgeGraph [Num False 7]) echo_env))
        = [\<lparr>verb = GET, path = ascii ''/api/visual/graph/7'',
            payload = Some (Obj [(ascii ''label'', Str (ascii ''*''))])\<rparr>]
   \<and> http_calls (fst (run (invoke OpGetKnowledgeGraph [Str (ascii ''col-1'')]) echo_env))
        = [\<lparr>verb = GET, path = ascii ''/api/visual/graph/col-1'',
            payload = Some (Obj [(ascii ''label'', Str (ascii ''*''))])\<rparr>]"
proof -
  have h: "to_string (Num False 7) = Inr (ascii ''7'')"
    by (simp add: dec.simps digit_def ascii_def)
  have p1: "ascii ''/api/visual/graph/'' @ ascii ''7'' = ascii ''/api/visual/graph/7''"
    by (simp add: ascii_def)
  have p2: "ascii ''/api/visual/graph/'' @ ascii ''col-1'' = ascii ''/api/visual/graph/col-1''"
    by (simp add: ascii_def)
  from graph_default_label [of "Num False 7" "ascii ''7''" echo_env "ascii ''col-1''"] h p1 p2
  show ?thesis by simp
qed

text \<open>
  The claim as it was stated, for every \<open>collectionId\<close>, fails:
  \<open>getKnowledgeGraph({toString: 1})\<close> raises in the template literal and issues no
  request.
\<close>

theorem graph_default_label_counterexample:
  "http_calls (fst (run (invoke OpGetKnowledgeGraph [no_string_form]) echo_env)) = []"
  by (simp add: arg_def getKnowledgeGraph_def template_raise no_string_form_raises
        caught_raise)

lemma local_upload_calls:
  assumes "form_value file = Inr storedFile"
    and "form_value collectionId = Inr storedCollectionId"
    and "form_value libraryId = Inr storedLibraryId"
  shows "http_calls (fst (run (invoke OpUploadLocalFile [file, collectionId, libraryId]) env))
     = [\<lparr>verb = POST, path = ascii ''/api/upload/process'',
         payload = Some (FormDataV
           [(ascii ''file'', storedFile),
            (ascii ''collection_id'', storedCollectionId),
            (ascii ''library_id'', storedLibraryId),
            (ascii ''chunk_strategy'', Str (ascii ''markdown''))])\<rparr>]
   \<and> fetch_calls (fst (run (invoke OpUploadLocalFile [file, collectionId, libraryId]) env))
     = []"
proof -
  have m: "form_value (Str (ascii ''markdown'')) = Inr (Str (ascii ''markdown''))"
    by (simp add: form_value_def usv_string_ascii)
  show ?thesis
    using assms m
    by (simp add: uploadLocalFile_def arg_def default_param_def Let_def
          formdata_append_stored bind_lift_value wrapped_request_calls)
qed

text \<open>
  C7 (as amended). For every file, \<open>collectionId\<close> and \<open>libraryId\<close> that a form can
  store (a \<open>File\<close>, or a value whose string conversion does not raise), \<open>uploadLocalFile\<close>
  with no strategy issues exactly one request: \<open>POST\<close> on \<open>/api/upload/process\<close> with a
  form of the four fields \<open>file\<close>, \<open>collection_id\<close>, \<open>library_id\<close>, \<open>chunk_strategy\<close>, each
  as the form stores it, the last being \<open>markdown\<close>.
\<close>

theorem local_upload_default_strategy:
  assumes "form_value file = Inr storedFile"
    and "form_value collectionId = Inr storedCollectionId"
    and "form_value libraryId = Inr storedLibraryId"
  shows "http_calls (fst (run (invoke OpUploadLocalFile [file, collectionId, libraryId]) env))
     = [\<lparr>verb = POST, path = ascii ''/api/upload/process'',
         payload = Some (FormDataV
           [(ascii ''file'', storedFile),
            (ascii ''collection_id'', storedCollectionId),
            (ascii ''library_id'', storedLibraryId),
            (ascii ''chunk_strategy'', Str (ascii ''markdown''))])\<rparr>]
   \<and> fetch_calls (fst (run (invoke OpUploadLocalFile [file, collectionId, libraryId]) env))
     = []"
  using local_upload_calls [OF assms] .

text \<open>
  \<open>uploadLocalFile(file, 'col-1', 42)\<close>: the form stores the number as the string \<open>42\<close>;
  and a \<open>collectionId\<close> with a lone surrogate, stored with U+FFFD in its place.
\<close>

theorem local_upload_default_strategy_witness:
  "form_value (FileV sample_file) = Inr (FileV sample_file)
   \<and> form_value (Str (ascii ''col-1'')) = Inr (Str (ascii ''col-1''))
   \<and> form_value (Num False 42) = Inr (Str (ascii ''42''))
   \<and> http_calls (fst (run (invoke OpUploadLocalFile
                             [FileV sample_file, Str (ascii ''col-1''), Num False 42])
                        echo_env))
     = [\<lparr>verb = POST, path = ascii ''/api/upload/process'',
         payload = Some (FormDataV
           [(ascii ''file'', FileV sample_file),
            (ascii ''collection_id'', Str (ascii ''col-1'')),
            (ascii ''library_id'', Str (ascii ''42'')),
            (ascii ''chunk_strategy'', Str (ascii ''markdown''))])\<rparr>]
   \<and> form_value (Str [0x61, 0xD800]) = Inr (Str [0x61, 0xFFFD])
   \<and> http_calls (fst (run (invoke OpUploadLocalFile
                             [FileV sample_file, Str [0x61, 0xD800], Num False 42])
                        echo_env))
     = [\<lparr>verb = POST, path = ascii ''/api/upload/process'',
         payload = Some (FormDataV
           [(ascii ''file'', FileV sample_file),
            (ascii ''collection_id'', Str [0x61, 0xFFFD]),
            (ascii ''library_id'', Str (ascii ''42'')),
            (ascii ''chunk_strategy'', Str (ascii ''markdown''))])\<rparr>]"
proof -
  note h1 = form_value_examples(1) [of sample_file]
  note h2 = form_value_examples(2)
  note h3 = form_value_number
  note h4 = form_value_examples(3)
  from local_upload_default_strategy [OF h1 h2 h3, of echo_env]
    local_upload_default_strategy [OF h1 h4 h3, of echo_env] h1 h2 h3 h4
  show ?thesis by simp
qed

text \<open>
  The claim as it was stated, for every \<open>collectionId\<close>, fails:
  \<open>uploadLocalFile(file, {toString: 1}, 42)\<close> raises in \<open>formData.append\<close> and issues no
  request.
\<close>

theorem local_upload_counterexample:
  "http_calls (fst (run (invoke OpUploadLocalFile
                          [FileV sample_file, no_string_form, Num False 42]) echo_env))
     = []"
proof -
  have r: "form_value no_string_form = Inl RuntimeTypeError"
    by (simp add: form_value_def no_string_form_def ascii_def)
  show ?thesis
    by (simp add: uploadLocalFile_def arg_def default_param_def Let_def
          formdata_append_stored [OF form_value_examples(1)] formdata_append_raise [OF r]
          bind_lift_value bind_lift_raise caught_raise)
qed

text \<open>A string with a lone surrogate is stored with U+FFFD in its place.\<close>

lemma local_upload_lone_surrogate:
  "http_calls (fst (run (invoke OpUploadLocalFile
                          [FileV sample_file, Str [0x61, 0xD800], Str (ascii ''7'')]) echo_env))
     = [\<lparr>verb = POST, path = ascii ''/api/upload/process'',
         payload = Some (FormDataV
           [(ascii ''file'', FileV sample_file),
            (ascii ''collection_id'', Str [0x61, 0xFFFD]),
            (ascii ''library_id'', Str (ascii ''7'')),
            (ascii ''chunk_strategy'', Str (ascii ''markdown''))])\<rparr>]"
proof -
  have h3: "form_value (Str (ascii ''7'')) = Inr (Str (ascii ''7''))"
    by (simp add: form_value_def usv_string_ascii)
  from local_upload_calls [OF form_value_examples(1) form_value_examples(3) h3]
  show ?thesis by simp
qed

subsection \<open>The shared state\<close>

lemma preserves_return: "preserves (return v)"
  by (simp add: preserves_def return_def)

lemma preserves_throw: "preserves (throw e)"
  by (simp add: preserves_def throw_def)

lemma preserves_lift: "preserves (lift r)"
  by (simp add: preserves_def lift_def)

lemma preserves_await_http: "preserves (await_http q)"
  by (simp add: preserves_def await_http_def)

lemma preserves_await_fetch: "preserves (await_fetch q)"
  by (simp add: preserves_def await_fetch_def)

lemma preserves_console_error: "preserves (console_error l e)"
  by (simp add: preserves_def console_error_def)

text \<open>The property is not empty: an assignment to the instance does not have it.\<close>

lemma assignment_changes_state: "\<not> preserves (assign_this k v)"
proof
  assume "preserves (assign_this k v)"
  then have "snd (assign_this k v env) = env" for env
    by (simp add: preserves_def)
  then have "knowledgeAPI (snd (assign_this k v (module_loaded t f)))
               = knowledgeAPI (module_loaded t f)" for t f
    by simp
  then show False
    by (simp add: assign_this_def module_loaded_def)
qed

lemma preserves_bind:
  assumes "preserves p" and "\<And>v. preserves (f v)"
  shows "preserves (bind p f)"
proof -
  have "snd (bind p f env) = env" for env
  proof -
    obtain t r where p: "p env = ((t, r), env)"
      using assms(1) by (metis preserves_def prod.collapse)
    show ?thesis
    proof (cases r)
      case (Inl e)
      with p show ?thesis by (simp add: bind_def)
    next
      case (Inr v)
      obtain t' r' where f: "f v env = ((t', r'), env)"
        using assms(2) [of v] by (metis preserves_def prod.collapse)
      with p Inr show ?thesis by (simp add: bind_def)
    qed
  qed
  then show ?thesis by (simp add: preserves_def)
qed

lemma preserves_try_catch:
  assumes "preserves p" and "\<And>e. preserves (h e)"
  shows "preserves (try_catch p h)"
proof -
  have "snd (try_catch p h env) = env" for env
  proof -
    obtain t r where p: "p env = ((t, r), env)"
      using assms(1) by (metis preserves_def prod.collapse)
    show ?thesis
    proof (cases r)
      case (Inr v)
      with p show ?thesis by (simp add: try_catch_def)
    next
      case (Inl e)
      obtain t' r' where h: "h e env = ((t', r'), env)"
        using assms(2) [of e] by (metis preserves_def prod.collapse)
      with p Inl show ?thesis by (simp add: try_catch_def)
    qed
  qed
  then show ?thesis by (simp add: preserves_def)
qed

lemma preserves_log_and_rethrow: "preserves (log_and_rethrow l e)"
  unfolding log_and_rethrow_def
  by (intro preserves_bind preserves_console_error preserves_throw)

lemma preserves_template: "preserves (template lit v)"
  unfolding template_def
  by (intro preserves_bind preserves_lift preserves_return)

lemmas preserves_intros = preserves_return preserves_throw preserves_lift
  preserves_await_http preserves_await_fetch preserves_console_error preserves_bind
  preserves_try_catch preserves_log_and_rethrow preserves_template

lemma preserves_uploadFileToOSS: "preserves (uploadFileToOSS uploadUrl file)"
  unfolding uploadFileToOSS_def Let_def
  by (intro preserves_try_catch preserves_bind preserves_lift preserves_await_fetch
        preserves_log_and_rethrow)
     (auto intro!: preserves_intros)

lemma preserves_invoke: "preserves (invoke op args)"
proof (cases op)
  case OpUploadFileToOSS
  then show ?thesis by (simp add: preserves_uploadFileToOSS)
qed (simp_all add: method_defs Let_def, (intro preserves_intros)+)

text \<open>
  C8. No call changes the state that the calls share: whatever the operation, the
  arguments and the state, the state after the call (the transport binding, the global
  \<open>fetch\<close> and the own properties of the instance) is the state before it; and so it is
  after each call of any sequence of calls.
\<close>

theorem calls_leave_shared_state_unchanged:
  "after (invoke op args) env = env
   \<and> map snd (run_calls env cs) = replicate (length cs) env"
proof
  have one: "snd (invoke op' args' env') = env'" for op' args' env'
    using preserves_invoke [of op' args'] by (simp add: preserves_def)
  show "after (invoke op args) env = env"
    by (simp add: after_def one)
  show "map snd (run_calls env cs) = replicate (length cs) env"
  proof (induction cs)
    case Nil
    show ?case by simp
  next
    case (Cons c cs)
    obtain op' args' where c: "c = (op', args')" by (cases c)
    obtain out where s: "invoke op' args' env = (out, env)"
      using one [of op' args' env] by (metis prod.collapse)
    from Cons c s show ?case by simp
  qed
qed

text \<open>After a call on the module as loaded, the instance still has no property of its own.\<close>

lemma instance_has_no_fields:
  "knowledgeAPI (after (invoke op args) (module_loaded transport platform_fetch)) = []
   \<and> httpClient (after (invoke op args) (module_loaded transport platform_fetch)) = transport"
proof -
  have "after (invoke op args) (module_loaded transport platform_fetch)
          = module_loaded transport platform_fetch"
    using preserves_invoke [of op args] by (simp add: preserves_def after_def)
  then show ?thesis by (simp add: module_loaded_def)
qed

subsection \<open>Determinism\<close>

lemma wrapped_request_agree:
  "httpClient env1 q = httpClient env2 q \<Longrightarrow>
   run (try_catch (bind (await_http q) return) (log_and_rethrow l)) env1
     = run (try_catch (bind (await_http q) return) (log_and_rethrow l)) env2"
  by (cases "httpClient env2 q") (simp_all add: prog_defs)

lemma guarded_request_deterministic:
  "http_calls (fst (run (try_catch (bind (lift R) (\<lambda>x. bind (await_http (Q x)) return))
                            (log_and_rethrow l)) env1))
     = http_calls (fst (run (try_catch (bind (lift R) (\<lambda>x. bind (await_http (Q x)) return))
                              (log_and_rethrow l)) env2))
   \<and> fetch_calls (fst (run (try_catch (bind (lift R) (\<lambda>x. bind (await_http (Q x)) return))
                               (log_and_rethrow l)) env1))
     = fetch_calls (fst (run (try_catch (bind (lift R) (\<lambda>x. bind (await_http (Q x)) return))
                               (log_and_rethrow l)) env2))
   \<and> ((\<forall>q \<in> set (http_calls (fst (run (try_catch
                  (bind (lift R) (\<lambda>x. bind (await_http (Q x)) return))
                  (log_and_rethrow l)) env1))).
          httpClient env1 q = httpClient env2 q)
        \<and> (\<forall>q \<in> set (fetch_calls (fst (run (try_catch
                  (bind (lift R) (\<lambda>x. bind (await_http (Q x)) return))
                  (log_and_rethrow l)) env1))).
          fetch env1 q = fetch env2 q)
       \<longrightarrow> run (try_catch (bind (lift R) (\<lambda>x. bind (await_http (Q x)) return))
                   (log_and_rethrow l)) env1
           = run (try_catch (bind (lift R) (\<lambda>x. bind (await_http (Q x)) return))
                   (log_and_rethrow l)) env2)"
proof (cases R)
  case (Inl e)
  then show ?thesis by (simp add: bind_lift_raise caught_raise)
next
  case (Inr x)
  have "httpClient env1 (Q x) = httpClient env2 (Q x) \<Longrightarrow>
        run (try_catch (bind (await_http (Q x)) return) (log_and_rethrow l)) env1
          = run (try_catch (bind (await_http (Q x)) return) (log_and_rethrow l)) env2"
    by (rule wrapped_request_agree)
  with Inr show ?thesis
    using wrapped_request_calls [of "Q x" l env1] wrapped_request_calls [of "Q x" l env2]
    by (simp add: bind_lift_value)
qed

lemma wrapped_request_deterministic:
  "http_calls (fst (run (try_catch (bind (await_http q) return) (log_and_rethrow l)) env1))
     = http_calls (fst (run (try_catch (bind (await_http q) return) (log_and_rethrow l)) env2))
   \<and> fetch_calls (fst (run (try_catch (bind (await_http q) return) (log_and_rethrow l)) env1))
     = fetch_calls (fst (run (try_catch (bind (await_http q) return) (log_and_rethrow l)) env2))
   \<and> ((\<forall>q' \<in> set (http_calls (fst (run (try_catch (bind (await_http q) return)
                                              (log_and_rethrow l)) env1))).
          httpClient env1 q' = httpClient env2 q')
        \<and> (\<forall>q' \<in> set (fetch_calls (fst (run (try_catch (bind (await_http q) return)
                                                 (log_and_rethrow l)) env1))).
          fetch env1 q' = fetch env2 q')
       \<longrightarrow> run (try_catch (bind (await_http q) return) (log_and_rethrow l)) env1
           = run (try_catch (bind (await_http q) return) (log_and_rethrow l)) env2)"
proof -
  have "httpClient env1 q = httpClient env2 q \<Longrightarrow>
        run (try_catch (bind (await_http q) return) (log_and_rethrow l)) env1
          = run (try_catch (bind (await_http q) return) (log_and_rethrow l)) env2"
    by (rule wrapped_request_agree)
  then show ?thesis
    using wrapped_request_calls [of q l env1] wrapped_request_calls [of q l env2]
    by simp
qed

lemma upload_agree:
  assumes "formdata_append [] (ascii ''file'') file = Inr formData"
    and "read_type file = Inr ct"
    and "fetch env1 \<lparr>url = uploadUrl, req_method = ascii ''PUT'', body = file,
                     headers = [(ascii ''Content-Type'', ct)]\<rparr>
         = fetch env2 \<lparr>url = uploadUrl, req_method = ascii ''PUT'', body = file,
                       headers = [(ascii ''Content-Type'', ct)]\<rparr>"
  shows "run (uploadFileToOSS uploadUrl file) env1 = run (uploadFileToOSS uploadUrl file) env2"
  using assms
  by (simp add: uploadFileToOSS_def prog_defs Let_def split: sum.splits prod.splits)

lemma upload_no_form:
  assumes "formdata_append [] (ascii ''file'') file = Inl e"
  shows "run (uploadFileToOSS uploadUrl file) env
           = ([ConsoleError label_uploadFileToOSS e], Inl e)"
  using assms by (simp add: uploadFileToOSS_def prog_defs Let_def)

lemma upload_no_type:
  assumes "formdata_append [] (ascii ''file'') file = Inr formData"
    and "read_type file = Inl e"
  shows "run (uploadFileToOSS uploadUrl file) env
           = ([ConsoleError label_uploadFileToOSS e], Inl e)"
  using assms by (simp add: uploadFileToOSS_def prog_defs Let_def)

lemma upload_deterministic:
  "http_calls (fst (run (uploadFileToOSS u file) env1))
     = http_calls (fst (run (uploadFileToOSS u file) env2))
   \<and> fetch_calls (fst (run (uploadFileToOSS u file) env1))
       = fetch_calls (fst (run (uploadFileToOSS u file) env2))
   \<and> ((\<forall>q \<in> set (http_calls (fst (run (uploadFileToOSS u file) env1))).
          httpClient env1 q = httpClient env2 q)
        \<and> (\<forall>q \<in> set (fetch_calls (fst (run (uploadFileToOSS u file) env1))).
          fetch env1 q = fetch env2 q)
       \<longrightarrow> run (uploadFileToOSS u file) env1 = run (uploadFileToOSS u file) env2)"
proof (cases "formdata_append [] (ascii ''file'') file")
  case (Inl e)
  then show ?thesis by (simp add: upload_no_form)
next
  case form: (Inr formData)
  show ?thesis
  proof (cases "read_type file")
    case (Inl e)
    with form show ?thesis by (simp add: upload_no_type)
  next
    case (Inr ct)
    have "fetch env1 \<lparr>url = u, req_method = ascii ''PUT'', body = file,
                       headers = [(ascii ''Content-Type'', ct)]\<rparr>
            = fetch env2 \<lparr>url = u, req_method = ascii ''PUT'', body = file,
                          headers = [(ascii ''Content-Type'', ct)]\<rparr>
          \<Longrightarrow> run (uploadFileToOSS u file) env1 = run (uploadFileToOSS u file) env2"
      by (rule upload_agree [OF form Inr])
    then show ?thesis
      using upload_fetch_calls [OF form Inr, of u env1] upload_fetch_calls [OF form Inr, of u env2]
      by simp
  qed
qed

text \<open>
  C10. For every operation and all arguments, from any two shared states: the requests
  issued (to the transport and to \<open>fetch\<close>) are the same, and if the two states answer
  those requests alike, the two runs have the same events and the same result (the same
  resolved value or the same rejection).
\<close>

theorem operations_deterministic:
  "http_calls (fst (run (invoke op args) env1)) = http_calls (fst (run (invoke op args) env2))
   \<and> fetch_calls (fst (run (invoke op args) env1))
       = fetch_calls (fst (run (invoke op args) env2))
   \<and> ((\<forall>q \<in> set (http_calls (fst (run (invoke op args) env1))).
          httpClient env1 q = httpClient env2 q)
        \<and> (\<forall>q \<in> set (fetch_calls (fst (run (invoke op args) env1))).
          fetch env1 q = fetch env2 q)
       \<longrightarrow> run (invoke op args) env1 = run (invoke op args) env2)"
proof (cases op)
  case OpGetLibraries
  show ?thesis
    unfolding OpGetLibraries invoke.simps getLibraries_def
    by (rule wrapped_request_deterministic)
next
  case OpGetLibraryDetail
  show ?thesis
    unfolding OpGetLibraryDetail invoke.simps getLibraryDetail_def template_as_lift
    by (rule guarded_request_deterministic)
next
  case OpCreateLibrary
  show ?thesis
    unfolding OpCreateLibrary invoke.simps createLibrary_def
    by (rule wrapped_request_deterministic)
next
  case OpUpdateLibrary
  show ?thesis
    unfolding OpUpdateLibrary invoke.simps updateLibrary_def template_as_lift
    by (rule guarded_request_deterministic)
next
  case OpDeleteLibrary
  show ?thesis
    unfolding OpDeleteLibrary invoke.simps deleteLibrary_def template_as_lift
    by (rule guarded_request_deterministic)
next
  case OpAddDocument
  show ?thesis
    unfolding OpAddDocument invoke.simps addDocument_def
    by (rule wrapped_request_deterministic)
next
  case OpUpdateDocument
  show ?thesis
    unfolding OpUpdateDocument invoke.simps updateDocument_def template_as_lift
    by (rule guarded_request_deterministic)
next
  case OpDeleteDocument
  show ?thesis
    unfolding OpDeleteDocument invoke.simps deleteDocument_def template_as_lift
    by (rule guarded_request_deterministic)
next
  case OpGetUploadUrl
  show ?thesis
    unfolding OpGetUploadUrl invoke.simps getUploadUrl_def
    by (rule wrapped_request_deterministic)
next
  case OpUploadFileToOSS
  show ?thesis
    unfolding OpUploadFileToOSS invoke.simps
    by (rule upload_deterministic)
next
  case OpCrawlSite
  show ?thesis
    unfolding OpCrawlSite invoke.simps crawlSite_def
    by (rule wrapped_request_deterministic)
next
  case OpUploadLocalFile
  show ?thesis
    unfolding OpUploadLocalFile invoke.simps uploadLocalFile_def form_chain
    unfolding Let_def
    by (rule guarded_request_deterministic)
next
  case OpGetKnowledgeGraph
  show ?thesis
    unfolding OpGetKnowledgeGraph invoke.simps getKnowledgeGraph_def Let_def template_as_lift
    by (rule guarded_request_deterministic)
next
  case OpProcessOSSDocument
  show ?thesis
    unfolding OpProcessOSSDocument invoke.simps processOSSDocument_def
    by (rule wrapped_request_deterministic)
qed

text \<open>
  Two shared states that differ (see \<open>environments_differ_elsewhere\<close>) but answer
  \<open>getLibraryDetail(42)\<close> alike.
\<close>

theorem operations_deterministic_witness:
  "http_calls (fst (run (invoke OpGetLibraryDetail [Num False 42]) echo_env))
     = [\<lparr>verb = GET, path = ascii ''/api/knowledge/libraries/42'', payload = None\<rparr>]
   \<and> httpClient echo_env
         \<lparr>verb = GET, path = ascii ''/api/knowledge/libraries/42'', payload = None\<rparr>
       = httpClient get_only_env
           \<lparr>verb = GET, path = ascii ''/api/knowledge/libraries/42'', payload = None\<rparr>
   \<and> fetch_calls (fst (run (invoke OpGetLibraryDetail [Num False 42]) echo_env)) = []
   \<and> run (invoke OpGetLibraryDetail [Num False 42]) echo_env
       = run (invoke OpGetLibraryDetail [Num False 42]) get_only_env"
proof -
  have p: "to_string (Num False 42) = Inr (ascii ''42'')"
    by (rule to_string_numbers(3))
  have pp: "ascii ''/api/knowledge/libraries/'' @ ascii ''42''
              = ascii ''/api/knowledge/libraries/42''"
    by (simp add: ascii_def)
  have h1: "http_calls (fst (run (invoke OpGetLibraryDetail [Num False 42]) echo_env))
     = [\<lparr>verb = GET, path = ascii ''/api/knowledge/libraries/42'', payload = None\<rparr>]"
    using pp by (simp add: getLibraryDetail_def arg_def template_value [OF p]
                   wrapped_request_calls)
  have h2: "httpClient echo_env
         \<lparr>verb = GET, path = ascii ''/api/knowledge/libraries/42'', payload = None\<rparr>
       = httpClient get_only_env
           \<lparr>verb = GET, path = ascii ''/api/knowledge/libraries/42'', payload = None\<rparr>"
    by (simp add: echo_env_def get_only_env_def module_loaded_def)
  have h3: "fetch_calls (fst (run (invoke OpGetLibraryDetail [Num False 42]) echo_env)) = []"
    by (simp add: getLibraryDetail_def arg_def template_value [OF p] wrapped_request_calls)
  have a1: "\<forall>q \<in> set (http_calls (fst (run (invoke OpGetLibraryDetail [Num False 42])
                                          echo_env))).
              httpClient echo_env q = httpClient get_only_env q"
    unfolding h1 using h2 by simp
  have a2: "\<forall>q \<in> set (fetch_calls (fst (run (invoke OpGetLibraryDetail [Num False 42])
                                           echo_env))).
              fetch echo_env q = fetch get_only_env q"
    unfolding h3 by simp
  from operations_deterministic [of OpGetLibraryDetail "[Num False 42]" echo_env get_only_env]
    a1 a2
  have e: "run (invoke OpGetLibraryDetail [Num False 42]) echo_env
             = run (invoke OpGetLibraryDetail [Num False 42]) get_only_env"
    by blast
  show ?thesis using h1 h2 h3 e by blast
qed

lemma environments_differ_elsewhere:
  "run (invoke OpCreateLibrary [Null]) echo_env \<noteq> run (invoke OpCreateLibrary [Null]) get_only_env"
  by (simp add: createLibrary_def prog_defs echo_env_def get_only_env_def module_loaded_def)

subsection \<open>When a conversion raises\<close>

lemma guarded_request_raise:
  "run (try_catch (bind (lift (Inl e)) f) (log_and_rethrow l)) env
     = ([ConsoleError l e], Inl e)"
  by (simp add: bind_lift_raise caught_raise)

lemma spec_path_None: "spec_path lit v = None \<Longrightarrow> \<exists>e. to_string v = Inl e"
  by (auto simp: spec_path_def split: sum.splits)

lemma spec_fields_None:
  "spec_fields [(ascii n1, v1), (ascii n2, v2), (ascii n3, v3), (ascii n4, v4)] = None \<Longrightarrow>
   \<exists>e. (case formdata_append [] (ascii n1) v1 of Inl e \<Rightarrow> Inl e | Inr a \<Rightarrow>
        (case formdata_append a (ascii n2) v2 of Inl e \<Rightarrow> Inl e | Inr b \<Rightarrow>
         (case formdata_append b (ascii n3) v3 of Inl e \<Rightarrow> Inl e | Inr c \<Rightarrow>
          formdata_append c (ascii n4) v4))) = Inl e"
  by (auto simp: formdata_append_def usv_string_ascii split: sum.splits option.splits)

text \<open>
  Where the catalogue row has no request, because a conversion raises, the operation
  calls nothing, logs the error once under its label, and rejects with it.
\<close>

lemma no_request_when_conversion_raises:
  assumes "op \<noteq> OpUploadFileToOSS" and "spec_request op args = None"
  shows "\<exists>e. run (invoke op args) env = ([ConsoleError (diagnostic_label op) e], Inl e)"
proof (cases op)
  case OpUploadLocalFile
  from assms(2) have sf:
    "spec_fields
       [(ascii ''file'', arg args 0), (ascii ''collection_id'', arg args 1),
        (ascii ''library_id'', arg args 2),
        (ascii ''chunk_strategy'', default_param (arg args 3) (Str (ascii ''markdown'')))]
     = None"
    unfolding OpUploadLocalFile spec_request.simps default_param_def
    by (simp only: map_option_is_None)
  from spec_fields_None [OF sf] obtain e where
    "(case formdata_append [] (ascii ''file'') (arg args 0) of Inl e \<Rightarrow> Inl e | Inr a \<Rightarrow>
        (case formdata_append a (ascii ''collection_id'') (arg args 1) of Inl e \<Rightarrow> Inl e
         | Inr b \<Rightarrow>
         (case formdata_append b (ascii ''library_id'') (arg args 2) of Inl e \<Rightarrow> Inl e
          | Inr c \<Rightarrow>
          formdata_append c (ascii ''chunk_strategy'')
            (default_param (arg args 3) (Str (ascii ''markdown'')))))) = Inl e"
    by blast
  then show ?thesis
    unfolding OpUploadLocalFile invoke.simps uploadLocalFile_def form_chain
    unfolding Let_def
    by (simp add: guarded_request_raise)
qed (use assms in \<open>auto simp: method_defs Let_def template_raise caught_raise
       dest!: spec_path_None\<close>)

end
